theory Spec2Isabelle
  imports Main
begin

section \<open>The OAuth bridge worker: data model\<close>

text \<open>
  The repository ships one request handler, \<open>fetch(request)\<close>, in two variants:
  \<open>src/index.js\<close> and an older copy without the HTML escaping and without the
  \<open>/api/v1/\<close> branch. Both are embedded here. Strings are byte sequences (the UTF-8
  form of the JavaScript string), which is what form decoding produces and what
  \<open>encodeURIComponent\<close> encodes.
\<close>

subsection \<open>JavaScript values\<close>

text \<open>
  A form field read with \<open>formData.get\<close> is a string or a \<open>File\<close>; \<open>None\<close> is
  JavaScript's \<open>null\<close>.
\<close>

datatype form_value = FString string | FFile

text \<open>
  The values the variable \<open>code\<close> of the \<open>/token\<close> branch can hold: what
  \<open>request.json()\<close> parses (numbers are kept as integers; \<open>JObj\<close> lists the
  members of the parsed object, each key once), \<open>undefined\<close> for a property that is
  not there, and the values of a form field.
\<close>

datatype js_value =
    JUndefined
  | JNull
  | JBool bool
  | JNum int
  | JStr string
  | JArr "js_value list"
  | JObj "(string \<times> js_value) list"
  | JFile

text \<open>JavaScript truthiness, as tested by \<open>!x\<close>.\<close>

fun truthy :: "js_value \<Rightarrow> bool" where
  "truthy JUndefined = False"
| "truthy JNull = False"
| "truthy (JBool b) = b"
| "truthy (JNum n) = (n \<noteq> 0)"
| "truthy (JStr s) = (s \<noteq> [])"
| "truthy (JArr _) = True"
| "truthy (JObj _) = True"
| "truthy JFile = True"

fun form_js :: "form_value option \<Rightarrow> js_value" where
  "form_js None = JNull"
| "form_js (Some (FString s)) = JStr s"
| "form_js (Some FFile) = JFile"

text \<open>String conversion of a form value in a template literal or a call that takes a string.\<close>

fun toString :: "form_value \<Rightarrow> string" where
  "toString (FString s) = s"
| "toString FFile = ''[object File]''"

text \<open>
  The property read \<open>json.code\<close>: it throws on \<open>null\<close> (and \<open>undefined\<close>), gives the
  member of an object, and \<open>undefined\<close> on every other parsed value. \<open>None\<close> is the
  \<open>TypeError\<close>.
\<close>

fun prop_code :: "js_value \<Rightarrow> js_value option" where
  "prop_code JNull = None"
| "prop_code JUndefined = None"
| "prop_code (JObj kvs) = (case map_of kvs ''code'' of None \<Rightarrow> Some JUndefined | Some v \<Rightarrow> Some v)"
| "prop_code _ = Some JUndefined"

text \<open>\<open>x || d\<close> on a value that is a string or \<open>null\<close>.\<close>

fun or_else :: "string option \<Rightarrow> string \<Rightarrow> string" where
  "or_else None d = d"
| "or_else (Some s) d = (if s = [] then d else s)"

definition startsWith :: "string \<Rightarrow> string \<Rightarrow> bool" where
  "startsWith s p = (take (length p) s = p)"

fun str_includes :: "string \<Rightarrow> string \<Rightarrow> bool" where
  "str_includes [] p = (p = [])"
| "str_includes (c # cs) p = (startsWith (c # cs) p \<or> str_includes cs p)"

subsection \<open>Requests, responses, the runtime\<close>

text \<open>
  A request as the handler sees it through the runtime's accessors: \<open>request.method\<close>,
  \<open>url.pathname\<close>, \<open>url.search\<close>, \<open>url.searchParams\<close>, \<open>request.headers.get\<close>, and
  the body readers. \<open>formData\<close> and \<open>json\<close> are \<open>None\<close> when the reader rejects
  the body (the promise rejects and \<open>await\<close> throws); \<open>body_bytes\<close> are the bytes
  that \<open>request.text()\<close> decodes.
\<close>

record request =
  req_method :: string
  pathname :: string
  search :: string
  searchParams :: "(string \<times> string) list"
  req_headers :: "string \<rightharpoonup> string"
  formData :: "(string \<times> form_value) list option"
  json :: "js_value option"
  body_bytes :: string

datatype source_file = IndexJs | Part000

text \<open>
  A response body. \<open>Json v\<close> is the text \<open>JSON.stringify(v)\<close>. \<open>HomePage f\<close> is the
  static document \<open>getHomePage()\<close> of file \<open>f\<close>. The two files hold different
  documents: that of \<open>src/index.js\<close> (lines 158-236) links a font stylesheet and has
  the heading \<open><h1>Canvas GPT</h1>\<close> and a footer, that of the second copy (lines
  119-188) has other styles, an emoji in the heading and no footer. \<open>AuthPage f r s\<close>
  is the template of \<open>getAuthPage\<close> of file \<open>f\<close> with \<open>r\<close> and \<open>s\<close> spliced
  between the double quotes of \<open>name="redirect_uri" value="..."\<close> and
  \<open>name="state" value="..."\<close>; the rest of the template is fixed text.
\<close>

datatype body =
    NoBody
  | Text string
  | Json js_value
  | HomePage source_file
  | AuthPage source_file string string

text \<open>
  A response: the status and the headers the handler gives the constructor, and the body.
\<close>

record response =
  status :: nat
  headers :: "(string \<times> string) list"
  body :: body

datatype exn =
    FormDataError
  | JsonSyntaxError
  | NullPropertyError
  | RedirectUrlError
  | ResponseStatusError
  | UpstreamFetchError

text \<open>The request the proxy branch hands to the runtime's global \<open>fetch\<close>, and its answer.\<close>

record up_request =
  up_url :: string
  up_method :: string
  up_headers :: "(string \<times> string) list"
  up_body :: "string option"

record up_response =
  up_status :: nat
  up_content_type :: "string option"
  up_bytes :: string

text \<open>
  What the handler takes from the runtime. \<open>parse_base\<close> is the URL parser on the part
  of a URL before its query and fragment: the serialised scheme, authority and path, or
  \<open>None\<close> when the parser fails. \<open>global_fetch\<close> is the runtime's \<open>fetch\<close>
  (\<open>None\<close> when the call fails).
\<close>

record env =
  parse_base :: "string \<Rightarrow> string option"
  global_fetch :: "up_request \<Rightarrow> up_response option"

subsection \<open>Reading a body as text\<close>

text \<open>
  \<open>text()\<close> decodes the bytes of a body as UTF-8: a leading byte-order mark is dropped
  and every ill-formed sequence gives U+FFFD. The string is kept in its UTF-8 form, so
  the decoder copies the well-formed sequences and writes \<open>EF BF BD\<close> for an error.
  Its arguments are the number of continuation bytes still needed, the bounds for the
  next byte, and the bytes of the sequence read so far.
\<close>

definition replacement :: string where
  "replacement = [CHR 0xEF, CHR 0xBF, CHR 0xBD]"

fun utf8_decode :: "nat \<Rightarrow> nat \<Rightarrow> nat \<Rightarrow> string \<Rightarrow> string \<Rightarrow> string" where
  "utf8_decode needed lower upper seen [] = (if needed = 0 then [] else replacement)"
| "utf8_decode needed lower upper seen (b # bs) =
     (if needed = 0 then
        (if (of_char b :: nat) \<le> 0x7F then b # utf8_decode 0 0x80 0xBF [] bs
         else if 0xC2 \<le> (of_char b :: nat) \<and> (of_char b :: nat) \<le> 0xDF then
           utf8_decode 1 0x80 0xBF [b] bs
         else if 0xE0 \<le> (of_char b :: nat) \<and> (of_char b :: nat) \<le> 0xEF then
           utf8_decode 2 (if b = CHR 0xE0 then 0xA0 else 0x80)
             (if b = CHR 0xED then 0x9F else 0xBF) [b] bs
         else if 0xF0 \<le> (of_char b :: nat) \<and> (of_char b :: nat) \<le> 0xF4 then
           utf8_decode 3 (if b = CHR 0xF0 then 0x90 else 0x80)
             (if b = CHR 0xF4 then 0x8F else 0xBF) [b] bs
         else replacement @ utf8_decode 0 0x80 0xBF [] bs)
      else if (of_char b :: nat) < lower \<or> upper < (of_char b :: nat) then
        replacement @ utf8_decode 0 0x80 0xBF [] (b # bs)
      else if needed = 1 then seen @ [b] @ utf8_decode 0 0x80 0xBF [] bs
      else utf8_decode (needed - 1) 0x80 0xBF (seen @ [b]) bs)"

definition utf8_text :: "string \<Rightarrow> string" where
  "utf8_text bytes =
     utf8_decode 0 0x80 0xBF []
       (if startsWith bytes [CHR 0xEF, CHR 0xBB, CHR 0xBF] then drop 3 bytes else bytes)"

text \<open>
  \<open>canvasResponse.text()\<close>: the runtime's \<open>fetch\<close> gives a response with a null-body
  status no body, so its text is empty.
\<close>

definition response_text :: "up_response \<Rightarrow> string" where
  "response_text r =
     (if up_status r = 101 \<or> up_status r = 204 \<or> up_status r = 205 \<or> up_status r = 304
      then []
      else utf8_text (up_bytes r))"

text \<open>
  \<open>new Response(body, {status, headers})\<close>: the constructor throws on a status outside
  200..599 and on a body that is not empty given with a null-body status.
\<close>

definition new_Response :: "body \<Rightarrow> nat \<Rightarrow> (string \<times> string) list \<Rightarrow> exn + response" where
  "new_Response b st hs =
     (if st < 200 \<or> 599 < st then Inl ResponseStatusError
      else if b \<noteq> NoBody \<and> b \<noteq> Text [] \<and> (st = 204 \<or> st = 205 \<or> st = 304)
      then Inl ResponseStatusError
      else Inr \<lparr>status = st, headers = hs, body = b\<rparr>)"

subsection \<open>\<open>Response.redirect\<close>\<close>

text \<open>
  \<open>Response.redirect(url, status)\<close> parses \<open>url\<close> as the URL Standard says and puts
  the serialised URL in the \<open>Location\<close> header, the only header of the response. The
  parser drops leading and trailing C0 controls and spaces and every tab and newline. It
  fails when the string does not start with a scheme and a colon (there is no base URL),
  or in the authority or path, which is \<open>parse_base\<close>. The query runs from the first
  \<open>?\<close> to the first \<open>#\<close> and the fragment from there; both are kept, with the
  bytes of their percent-encode sets written \<open>%XX\<close>.
\<close>

definition hexDigit :: "nat \<Rightarrow> char" where
  "hexDigit n = ''0123456789ABCDEF'' ! (n mod 16)"

definition percentEncode :: "char \<Rightarrow> string" where
  "percentEncode c = [CHR ''%'', hexDigit (of_char c div 16), hexDigit (of_char c mod 16)]"

definition c0_or_space :: "char \<Rightarrow> bool" where
  "c0_or_space c = ((of_char c :: nat) \<le> 0x20)"

definition tab_or_newline :: "char \<Rightarrow> bool" where
  "tab_or_newline c = (c = CHR 0x09 \<or> c = CHR 0x0A \<or> c = CHR 0x0D)"

definition trim_start :: "string \<Rightarrow> string" where
  "trim_start u = dropWhile c0_or_space u"

definition trim_end :: "string \<Rightarrow> string" where
  "trim_end u = rev (dropWhile c0_or_space (rev u))"

definition remove_tab_newline :: "string \<Rightarrow> string" where
  "remove_tab_newline u = filter (\<lambda>c. \<not> tab_or_newline c) u"

definition url_clean :: "string \<Rightarrow> string" where
  "url_clean u = remove_tab_newline (trim_end (trim_start u))"

definition ascii_alpha :: "char \<Rightarrow> bool" where
  "ascii_alpha c =
     (0x41 \<le> (of_char c :: nat) \<and> (of_char c :: nat) \<le> 0x5A
      \<or> 0x61 \<le> (of_char c :: nat) \<and> (of_char c :: nat) \<le> 0x7A)"

definition scheme_char :: "char \<Rightarrow> bool" where
  "scheme_char c =
     (ascii_alpha c \<or> 0x30 \<le> (of_char c :: nat) \<and> (of_char c :: nat) \<le> 0x39
      \<or> c = CHR ''+'' \<or> c = CHR ''-'' \<or> c = CHR ''.'')"

definition ascii_lower :: "char \<Rightarrow> char" where
  "ascii_lower c =
     (if 0x41 \<le> (of_char c :: nat) \<and> (of_char c :: nat) \<le> 0x5A
      then char_of ((of_char c :: nat) + 0x20) else c)"

text \<open>The scheme of a URL string, in lower case; \<open>None\<close> when it does not start with one.\<close>

definition url_scheme :: "string \<Rightarrow> string option" where
  "url_scheme u =
     (case takeWhile (\<lambda>c. c \<noteq> CHR '':'') u of
        [] \<Rightarrow> None
      | c # cs \<Rightarrow>
          if CHR '':'' \<in> set u \<and> ascii_alpha c \<and> list_all scheme_char cs
          then Some (map ascii_lower (c # cs))
          else None)"

definition special_scheme :: "string \<Rightarrow> bool" where
  "special_scheme s = (s \<in> set [''http'', ''https'', ''ws'', ''wss'', ''ftp'', ''file''])"

text \<open>
  The query percent-encode set: C0 controls, space, the double quote, \<open>#\<close>, \<open><\<close>,
  \<open>>\<close> and everything above \<open>~\<close>; under a special scheme the apostrophe too.
\<close>

definition query_encode_byte :: "bool \<Rightarrow> char \<Rightarrow> string" where
  "query_encode_byte special c =
     (if (of_char c :: nat) \<le> 0x20 \<or> 0x7E < (of_char c :: nat)
         \<or> c = CHR 0x22 \<or> c = CHR ''#'' \<or> c = CHR ''<'' \<or> c = CHR ''>''
         \<or> special \<and> c = CHR 0x27
      then percentEncode c else [c])"

definition query_encode :: "bool \<Rightarrow> string \<Rightarrow> string" where
  "query_encode special q = concat (map (query_encode_byte special) q)"

text \<open>
  The fragment percent-encode set: C0 controls, space, the double quote, \<open><\<close>, \<open>>\<close>,
  the backquote and everything above \<open>~\<close>.
\<close>

definition fragment_encode_byte :: "char \<Rightarrow> string" where
  "fragment_encode_byte c =
     (if (of_char c :: nat) \<le> 0x20 \<or> 0x7E < (of_char c :: nat)
         \<or> c = CHR 0x22 \<or> c = CHR ''<'' \<or> c = CHR ''>'' \<or> c = CHR 0x60
      then percentEncode c else [c])"

definition fragment_encode :: "string \<Rightarrow> string" where
  "fragment_encode f = concat (map fragment_encode_byte f)"

text \<open>
  Scheme, authority and path as the serialiser writes them. The parser ends the path at
  the first \<open>?\<close> or \<open>#\<close> and both are in the path percent-encode set, so what it
  writes before the query holds neither; one that \<open>parse_base\<close> answers is written
  percent-encoded.
\<close>

definition base_serialised :: "env \<Rightarrow> string \<Rightarrow> string option" where
  "base_serialised e base =
     map_option
       (\<lambda>b. concat (map (\<lambda>c. if c = CHR ''?'' \<or> c = CHR ''#'' then percentEncode c else [c]) b))
       (parse_base e base)"

text \<open>The serialised URL, or \<open>None\<close> when the parser fails.\<close>

definition redirect_location :: "env \<Rightarrow> string \<Rightarrow> string option" where
  "redirect_location e url =
     (let u = url_clean url;
          base = takeWhile (\<lambda>c. c \<noteq> CHR ''?'' \<and> c \<noteq> CHR ''#'') u;
          rest = dropWhile (\<lambda>c. c \<noteq> CHR ''?'' \<and> c \<noteq> CHR ''#'') u;
          query = takeWhile (\<lambda>c. c \<noteq> CHR ''#'') rest;
          fragment = dropWhile (\<lambda>c. c \<noteq> CHR ''#'') rest
      in case url_scheme u of
           None \<Rightarrow> None
         | Some scheme \<Rightarrow>
             (case base_serialised e base of
                None \<Rightarrow> None
              | Some b \<Rightarrow>
                  Some (b @ (case query of
                               [] \<Rightarrow> []
                             | q # qs \<Rightarrow> ''?'' @ query_encode (special_scheme scheme) qs)
                          @ (case fragment of
                               [] \<Rightarrow> []
                             | f # fs \<Rightarrow> ''#'' @ fragment_encode fs))))"

definition Response_redirect :: "env \<Rightarrow> string \<Rightarrow> nat \<Rightarrow> exn + response" where
  "Response_redirect e url st =
     (case redirect_location e url of
        None \<Rightarrow> Inl RedirectUrlError
      | Some href \<Rightarrow> Inr \<lparr>status = st, headers = [(''Location'', href)], body = NoBody\<rparr>)"

section \<open>The handler of \<open>src/index.js\<close>\<close>

definition CANVAS_DOMAIN :: string where
  "CANVAS_DOMAIN = ''grambling.instructure.com''"

definition replaceAll :: "char \<Rightarrow> string \<Rightarrow> string \<Rightarrow> string" where
  "replaceAll c r s = concat (map (\<lambda>x. if x = c then r else [x]) s)"

definition escapeHtml :: "string option \<Rightarrow> string" where
  "escapeHtml str =
     (case str of
        None \<Rightarrow> []
      | Some s \<Rightarrow>
          if s = [] then []
          else replaceAll (CHR ''>'') ''&gt;''
                 (replaceAll (CHR ''<'') ''&lt;''
                   (replaceAll (CHR 0x22) ''&quot;''
                     (replaceAll (CHR ''&'') ''&amp;'' s))))"

definition corsHeaders :: "(string \<times> string) list" where
  "corsHeaders =
     [(''Access-Control-Allow-Origin'', ''*''),
      (''Access-Control-Allow-Methods'', ''GET, POST, OPTIONS''),
      (''Access-Control-Allow-Headers'', ''Content-Type'')]"

subsection \<open>\<open>encodeURIComponent\<close>\<close>

text \<open>
  Every byte of the UTF-8 form is kept when it is an unreserved mark or alphanumeric and
  written \<open>%XX\<close> with upper-case hexadecimal digits otherwise.
\<close>

definition uriUnreserved :: "char \<Rightarrow> bool" where
  "uriUnreserved c =
     (c \<in> set (''ABCDEFGHIJKLMNOPQRSTUVWXYZabcdefghijklmnopqrstuvwxyz0123456789-_.!~*()''
               @ [CHR 0x27]))"

definition encodeByte :: "char \<Rightarrow> string" where
  "encodeByte c = (if uriUnreserved c then [c] else percentEncode c)"

definition encodeURIComponent :: "string \<Rightarrow> string" where
  "encodeURIComponent s = concat (map encodeByte s)"

subsection \<open>The branches of \<open>fetch\<close>\<close>

definition getHomePage :: body where
  "getHomePage = HomePage IndexJs"

definition getAuthPage :: "string option \<Rightarrow> string option \<Rightarrow> body" where
  "getAuthPage redirectUri state = AuthPage IndexJs (escapeHtml redirectUri) (escapeHtml state)"

text \<open>Lines 51-62: \<open>/authorize\<close>.\<close>

definition authorize_route :: "request \<Rightarrow> exn + response" where
  "authorize_route req =
     (let redirectUri = map_of (searchParams req) ''redirect_uri'';
          state = map_of (searchParams req) ''state''
      in if redirectUri = None \<or> redirectUri = Some []
         then new_Response (Text ''Missing redirect_uri'') 400 []
         else new_Response (getAuthPage redirectUri state) 200
                ((''Content-Type'', ''text/html'') # corsHeaders))"

text \<open>\<open>x || ""\<close> on a form value, converted to a string.\<close>

definition form_or_empty :: "form_value option \<Rightarrow> string" where
  "form_or_empty v =
     (case v of
        None \<Rightarrow> []
      | Some x \<Rightarrow> if truthy (form_js (Some x)) then toString x else [])"

text \<open>
  Lines 65-79: \<open>POST /callback\<close>. A field that is \<open>null\<close> is falsy, so the
  \<open>None\<close> cases take the branch of the guard \<open>!token || !redirectUri\<close>, written
  here as the negation of "both are truthy".
\<close>

definition callback_route :: "env \<Rightarrow> request \<Rightarrow> exn + response" where
  "callback_route e req =
     (case formData req of
        None \<Rightarrow> Inl FormDataError
      | Some fd \<Rightarrow>
          (case (map_of fd ''token'', map_of fd ''redirect_uri'') of
             (Some token, Some redirectUri) \<Rightarrow>
               if \<not> (truthy (form_js (Some token)) \<and> truthy (form_js (Some redirectUri)))
               then new_Response (Text ''Missing token or redirect_uri'') 400 []
               else Response_redirect e
                      (toString redirectUri @ ''?code=''
                         @ encodeURIComponent (toString token) @ ''&state=''
                         @ encodeURIComponent (form_or_empty (map_of fd ''state'')))
                      302
           | _ \<Rightarrow> new_Response (Text ''Missing token or redirect_uri'') 400 []))"

text \<open>Lines 107-121: the reply of \<open>POST /token\<close> once \<open>code\<close> is read.\<close>

definition token_reply :: "js_value \<Rightarrow> exn + response" where
  "token_reply code =
     (if \<not> truthy code
      then new_Response (Json (JObj [(''error'', JStr ''Missing code'')])) 400
             ((''Content-Type'', ''application/json'') # corsHeaders)
      else new_Response
             (Json (JObj [(''access_token'', code), (''token_type'', JStr ''Bearer''),
                          (''scope'', JStr ''read write'')]))
             200 ((''Content-Type'', ''application/json'') # corsHeaders))"

text \<open>Lines 82-105: \<open>POST /token\<close>, reading \<open>code\<close>.\<close>

definition token_route :: "request \<Rightarrow> exn + response" where
  "token_route req =
     (let contentType = or_else (req_headers req ''Content-Type'') []
      in if str_includes contentType ''application/x-www-form-urlencoded'' then
           (case formData req of
              None \<Rightarrow> Inl FormDataError
            | Some fd \<Rightarrow> token_reply (form_js (map_of fd ''code'')))
         else if str_includes contentType ''application/json'' then
           (case json req of
              None \<Rightarrow> Inl JsonSyntaxError
            | Some j \<Rightarrow>
                (case prop_code j of
                   None \<Rightarrow> Inl NullPropertyError
                 | Some code \<Rightarrow> token_reply code))
         else
           (case formData req of
              None \<Rightarrow>
                new_Response (Json (JObj [(''error'', JStr ''Invalid request format'')])) 400
                  ((''Content-Type'', ''application/json'') # corsHeaders)
            | Some fd \<Rightarrow> token_reply (form_js (map_of fd ''code''))))"

text \<open>Lines 125-152: the proxy to the Canvas host.\<close>

definition canvas_request :: "request \<Rightarrow> string \<Rightarrow> up_request" where
  "canvas_request req authHeader =
     \<lparr>up_url = ''https://'' @ CANVAS_DOMAIN @ pathname req @ search req,
      up_method = req_method req,
      up_headers =
        [(''Authorization'', authHeader),
         (''Content-Type'', or_else (req_headers req ''Content-Type'') ''application/json'')],
      up_body =
        (if req_method req \<noteq> ''GET'' \<and> req_method req \<noteq> ''HEAD'' then Some (utf8_text (body_bytes req))
         else None)\<rparr>"

definition proxy_route :: "env \<Rightarrow> request \<Rightarrow> exn + response" where
  "proxy_route e req =
     (let authHeader = or_else (req_headers req ''Authorization'') []
      in if authHeader = []
         then new_Response (Json (JObj [(''error'', JStr ''Missing Authorization header'')])) 401
                ((''Content-Type'', ''application/json'') # corsHeaders)
         else
           (case global_fetch e (canvas_request req authHeader) of
              None \<Rightarrow> Inl UpstreamFetchError
            | Some canvasResponse \<Rightarrow>
                new_Response (Text (response_text canvasResponse)) (up_status canvasResponse)
                  ((''Content-Type'',
                    or_else (up_content_type canvasResponse) ''application/json'')
                   # corsHeaders)))"

text \<open>Lines 28-155: the dispatcher.\<close>

definition fetch :: "env \<Rightarrow> request \<Rightarrow> exn + response" where
  "fetch e req =
     (if req_method req = ''OPTIONS'' then new_Response NoBody 200 corsHeaders
      else if pathname req = ''/'' \<or> pathname req = [] then
        new_Response getHomePage 200 ((''Content-Type'', ''text/html'') # corsHeaders)
      else if pathname req = ''/authorize'' then authorize_route req
      else if pathname req = ''/callback'' \<and> req_method req = ''POST'' then callback_route e req
      else if pathname req = ''/token'' \<and> req_method req = ''POST'' then token_route req
      else if startsWith (pathname req) ''/api/v1/'' then proxy_route e req
      else new_Response (Text ''Not found'') 404 corsHeaders)"

section \<open>The handler of the second copy\<close>

text \<open>
  The second file has no \<open>escapeHtml\<close>: its \<open>getAuthPage\<close> splices
  \<open>redirectUri || ""\<close> and \<open>state || ""\<close> into the hidden fields as they are.
\<close>

definition getAuthPage_part_000 :: "string option \<Rightarrow> string option \<Rightarrow> body" where
  "getAuthPage_part_000 redirectUri state =
     AuthPage Part000 (or_else redirectUri []) (or_else state [])"

text \<open>Lines 19-116 of the second file, written out in one piece.\<close>

definition fetch_part_000 :: "env \<Rightarrow> request \<Rightarrow> exn + response" where
  "fetch_part_000 e req =
     (let corsHeaders =
            [(''Access-Control-Allow-Origin'', ''*''),
             (''Access-Control-Allow-Methods'', ''GET, POST, OPTIONS''),
             (''Access-Control-Allow-Headers'', ''Content-Type'')]
      in
      if req_method req = ''OPTIONS'' then new_Response NoBody 200 corsHeaders
      else if pathname req = ''/'' \<or> pathname req = [] then
        new_Response (HomePage Part000) 200 ((''Content-Type'', ''text/html'') # corsHeaders)
      else if pathname req = ''/authorize'' then
        (let redirectUri = map_of (searchParams req) ''redirect_uri'';
             state = map_of (searchParams req) ''state''
         in if redirectUri = None \<or> redirectUri = Some []
            then new_Response (Text ''Missing redirect_uri'') 400 []
            else new_Response (getAuthPage_part_000 redirectUri state) 200
                   ((''Content-Type'', ''text/html'') # corsHeaders))
      else if pathname req = ''/callback'' \<and> req_method req = ''POST'' then
        (case formData req of
           None \<Rightarrow> Inl FormDataError
         | Some fd \<Rightarrow>
             (case (map_of fd ''token'', map_of fd ''redirect_uri'') of
                (Some token, Some redirectUri) \<Rightarrow>
                  if \<not> (truthy (form_js (Some token)) \<and> truthy (form_js (Some redirectUri)))
                  then new_Response (Text ''Missing token or redirect_uri'') 400 []
                  else Response_redirect e
                         (toString redirectUri @ ''?code=''
                            @ encodeURIComponent (toString token) @ ''&state=''
                            @ encodeURIComponent (form_or_empty (map_of fd ''state'')))
                         302
              | _ \<Rightarrow> new_Response (Text ''Missing token or redirect_uri'') 400 []))
      else if pathname req = ''/token'' \<and> req_method req = ''POST'' then
        (let contentType = or_else (req_headers req ''Content-Type'') [];
             reply = (\<lambda>code.
               if \<not> truthy code
               then new_Response (Json (JObj [(''error'', JStr ''Missing code'')])) 400
                      ((''Content-Type'', ''application/json'') # corsHeaders)
               else new_Response
                      (Json (JObj [(''access_token'', code), (''token_type'', JStr ''Bearer''),
                                   (''scope'', JStr ''read write'')]))
                      200 ((''Content-Type'', ''application/json'') # corsHeaders))
         in if str_includes contentType ''application/x-www-form-urlencoded'' then
              (case formData req of
                 None \<Rightarrow> Inl FormDataError
               | Some fd \<Rightarrow> reply (form_js (map_of fd ''code'')))
            else if str_includes contentType ''application/json'' then
              (case json req of
                 None \<Rightarrow> Inl JsonSyntaxError
               | Some j \<Rightarrow>
                   (case prop_code j of
                      None \<Rightarrow> Inl NullPropertyError
                    | Some code \<Rightarrow> reply code))
            else
              (case formData req of
                 None \<Rightarrow>
                   new_Response (Json (JObj [(''error'', JStr ''Invalid request format'')])) 400
                     ((''Content-Type'', ''application/json'') # corsHeaders)
               | Some fd \<Rightarrow> reply (form_js (map_of fd ''code''))))
      else new_Response (Text ''Not found'') 404 corsHeaders)"

section \<open>Reading the handler's output back\<close>

text \<open>
  The decoders a client applies to what the handler emits. They are not part of the
  worker; the round-trip properties are stated against them.
\<close>

subsection \<open>HTML attribute values\<close>

text \<open>Decoding of the four character references that \<open>escapeHtml\<close> writes.\<close>

fun html_decode :: "string \<Rightarrow> string" where
  "html_decode [] = []"
| "html_decode (c # cs) =
     (if c = CHR ''&'' \<and> startsWith cs ''amp;'' then CHR ''&'' # html_decode (drop 4 cs)
      else if c = CHR ''&'' \<and> startsWith cs ''quot;'' then CHR 0x22 # html_decode (drop 5 cs)
      else if c = CHR ''&'' \<and> startsWith cs ''lt;'' then CHR ''<'' # html_decode (drop 3 cs)
      else if c = CHR ''&'' \<and> startsWith cs ''gt;'' then CHR ''>'' # html_decode (drop 3 cs)
      else c # html_decode cs)"

text \<open>
  The value an HTML parser reads for a double-quoted attribute whose text starts with
  \<open>s\<close>: everything before the first double quote, character references decoded.
\<close>

definition html_attr_value :: "string \<Rightarrow> string" where
  "html_attr_value s = html_decode (takeWhile (\<lambda>c. c \<noteq> CHR 0x22) s)"

subsection \<open>Query strings\<close>

definition hexValue :: "char \<Rightarrow> nat option" where
  "hexValue c =
     (let n = (of_char c :: nat)
      in if 48 \<le> n \<and> n \<le> 57 then Some (n - 48)
         else if 65 \<le> n \<and> n \<le> 70 then Some (n - 55)
         else if 97 \<le> n \<and> n \<le> 102 then Some (n - 87)
         else None)"

fun percent_decode :: "string \<Rightarrow> string" where
  "percent_decode (a # b # c # cs) =
     (case (a = CHR ''%'', hexValue b, hexValue c) of
        (True, Some h, Some l) \<Rightarrow> char_of (16 * h + l) # percent_decode cs
      | _ \<Rightarrow> a # percent_decode (b # c # cs))"
| "percent_decode cs = cs"

text \<open>Decoding of one name or value of a query string: \<open>+\<close> is a space.\<close>

definition form_decode :: "string \<Rightarrow> string" where
  "form_decode s = percent_decode (map (\<lambda>c. if c = CHR ''+'' then CHR '' '' else c) s)"

fun split_on :: "char \<Rightarrow> string \<Rightarrow> string list" where
  "split_on d [] = [[]]"
| "split_on d (c # cs) =
     (if c = d then [] # split_on d cs
      else (case split_on d cs of
              [] \<Rightarrow> [[c]]
            | w # ws \<Rightarrow> (c # w) # ws))"

text \<open>The query of a URL: after the first \<open>?\<close>, before the first \<open>#\<close>.\<close>

definition url_query :: "string \<Rightarrow> string" where
  "url_query url =
     drop 1 (dropWhile (\<lambda>c. c \<noteq> CHR ''?'') (takeWhile (\<lambda>c. c \<noteq> CHR ''#'') url))"

definition query_pair :: "string \<Rightarrow> string \<times> string" where
  "query_pair seg =
     (form_decode (takeWhile (\<lambda>c. c \<noteq> CHR ''='') seg),
      form_decode (drop 1 (dropWhile (\<lambda>c. c \<noteq> CHR ''='') seg)))"

definition query_params :: "string \<Rightarrow> (string \<times> string) list" where
  "query_params url = map query_pair (filter (\<lambda>seg. seg \<noteq> []) (split_on (CHR ''&'') (url_query url)))"

text \<open>The first value of a query parameter, as \<open>URLSearchParams.get\<close> gives it.\<close>

definition query_get :: "string \<Rightarrow> string \<Rightarrow> string option" where
  "query_get url name = map_of (query_params url) name"

subsection \<open>Well-formed UTF-8\<close>

text \<open>
  The byte sequences that are well-formed UTF-8 (table 3-7 of the Unicode Standard): the
  bodies that mean the same text to every reader.
\<close>

definition in_range :: "nat \<Rightarrow> nat \<Rightarrow> char \<Rightarrow> bool" where
  "in_range lower upper c = (lower \<le> (of_char c :: nat) \<and> (of_char c :: nat) \<le> upper)"

fun utf8_well_formed :: "string \<Rightarrow> bool" where
  "utf8_well_formed [] = True"
| "utf8_well_formed (b # bs) =
     (if (of_char b :: nat) \<le> 0x7F then utf8_well_formed bs
      else if in_range 0xC2 0xDF b then
        (case bs of
           c1 # rest \<Rightarrow> in_range 0x80 0xBF c1 \<and> utf8_well_formed rest
         | _ \<Rightarrow> False)
      else if in_range 0xE0 0xEF b then
        (case bs of
           c1 # c2 # rest \<Rightarrow>
             in_range (if b = CHR 0xE0 then 0xA0 else 0x80) (if b = CHR 0xED then 0x9F else 0xBF) c1
             \<and> in_range 0x80 0xBF c2 \<and> utf8_well_formed rest
         | _ \<Rightarrow> False)
      else if in_range 0xF0 0xF4 b then
        (case bs of
           c1 # c2 # c3 # rest \<Rightarrow>
             in_range (if b = CHR 0xF0 then 0x90 else 0x80) (if b = CHR 0xF4 then 0x8F else 0xBF) c1
             \<and> in_range 0x80 0xBF c2 \<and> in_range 0x80 0xBF c3 \<and> utf8_well_formed rest
         | _ \<Rightarrow> False)
      else False)"

section \<open>Sample inputs\<close>

text \<open>
  A runtime whose URL parser leaves scheme, authority and path as they are written (as
  the parser does on \<open>https://chat.example/cb\<close>) and whose upstream is down.
\<close>

definition plain_env :: env where
  "plain_env = \<lparr>parse_base = Some, global_fetch = (\<lambda>_. None)\<rparr>"

text \<open>A runtime whose upstream answers every request with the given response.\<close>

definition answering_env :: "up_response \<Rightarrow> env" where
  "answering_env r = \<lparr>parse_base = Some, global_fetch = (\<lambda>_. Some r)\<rparr>"

text \<open>\<open>GET /\<close> with no query, no headers and an unreadable body.\<close>

definition blank_request :: request where
  "blank_request =
     \<lparr>req_method = ''GET'', pathname = ''/'', search = [], searchParams = [],
      req_headers = Map.empty, formData = None, json = None, body_bytes = []\<rparr>"

section \<open>Auxiliary notions for the proofs\<close>

text \<open>What the four passes of \<open>escapeHtml\<close> do to one character.\<close>

definition escapeChar :: "char \<Rightarrow> string" where
  "escapeChar c =
     (if c = CHR ''&'' then ''&amp;''
      else if c = CHR 0x22 then ''&quot;''
      else if c = CHR ''<'' then ''&lt;''
      else if c = CHR ''>'' then ''&gt;''
      else [c])"

text \<open>The characters that structure a URL's query.\<close>

definition queryDelimiter :: "char \<Rightarrow> bool" where
  "queryDelimiter c =
     (c = CHR ''&'' \<or> c = CHR ''='' \<or> c = CHR ''#'' \<or> c = CHR ''?'' \<or> c = CHR ''+'')"

text \<open>A response carries the three CORS headers.\<close>

definition carries_cors :: "response \<Rightarrow> bool" where
  "carries_cors r = (set corsHeaders \<subseteq> set (headers r))"

text \<open>The two plain-text 400 answers, and a redirect that has only a \<open>Location\<close> header.\<close>

definition plain_400 :: "response \<Rightarrow> bool" where
  "plain_400 r =
     (r = \<lparr>status = 400, headers = [], body = Text ''Missing redirect_uri''\<rparr>
      \<or> r = \<lparr>status = 400, headers = [], body = Text ''Missing token or redirect_uri''\<rparr>)"

definition bare_redirect :: "response \<Rightarrow> bool" where
  "bare_redirect r =
     (status r = 302 \<and> body r = NoBody \<and> map fst (headers r) = [''Location''])"

section \<open>Escaping and encoding round-trip\<close>

lemma replaceAll_append: "replaceAll c r (xs @ ys) = replaceAll c r xs @ replaceAll c r ys"
  by (simp add: replaceAll_def)

lemma replaceAll_Nil: "replaceAll c r [] = []"
  by (simp add: replaceAll_def)

lemma replaceAll_Cons: "replaceAll c r (x # xs) = (if x = c then r else [x]) @ replaceAll c r xs"
  by (simp add: replaceAll_def)

lemma replace_chain:
  "replaceAll (CHR ''>'') ''&gt;''
     (replaceAll (CHR ''<'') ''&lt;''
       (replaceAll (CHR 0x22) ''&quot;''
         (replaceAll (CHR ''&'') ''&amp;'' s))) = concat (map escapeChar s)"
proof (induction s)
  case Nil
  show ?case by (simp add: replaceAll_Nil)
next
  case (Cons x xs)
  show ?case
    using Cons.IH
    by (simp add: replaceAll_Cons replaceAll_append replaceAll_Nil escapeChar_def)
qed

lemma escapeHtml_Some: "escapeHtml (Some s) = concat (map escapeChar s)"
  by (cases s) (simp_all add: escapeHtml_def replace_chain)

lemma html_decode_escapeChar: "html_decode (escapeChar c @ rest) = c # html_decode rest"
  by (simp add: escapeChar_def startsWith_def)

lemma html_decode_concat: "html_decode (concat (map escapeChar s)) = s"
  by (induction s) (simp_all add: html_decode_escapeChar del: html_decode.simps(2))

lemma escapeChar_safe: "set (escapeChar c) \<inter> {CHR 0x22, CHR ''<'', CHR ''>''} = {}"
  by (simp add: escapeChar_def)

lemma escaped_safe: "set (concat (map escapeChar s)) \<inter> {CHR 0x22, CHR ''<'', CHR ''>''} = {}"
  using escapeChar_safe by (induction s) auto

lemma attr_roundtrip: "html_attr_value (concat (map escapeChar s)) = s"
proof -
  have "\<forall>c \<in> set (concat (map escapeChar s)). c \<noteq> CHR 0x22"
    using escaped_safe [of s] by auto
  then have "takeWhile (\<lambda>c. c \<noteq> CHR 0x22) (concat (map escapeChar s)) = concat (map escapeChar s)"
    by (simp add: takeWhile_eq_all_conv)
  then show ?thesis unfolding html_attr_value_def by (simp only: html_decode_concat)
qed

lemma hexValue_hexDigit_all: "list_all (\<lambda>n. hexValue (hexDigit n) = Some n) [0..<16]"
  by code_simp

lemma hexValue_hexDigit: "n < 16 \<Longrightarrow> hexValue (hexDigit n) = Some n"
  using hexValue_hexDigit_all by (simp add: list_all_iff)

lemma percent_decode_plain: "a \<noteq> CHR ''%'' \<Longrightarrow> percent_decode (a # xs) = a # percent_decode xs"
proof (cases xs)
  case Nil
  then show ?thesis by simp
next
  case (Cons b ys)
  assume a: "a \<noteq> CHR ''%''"
  show ?thesis
  proof (cases ys)
    case Nil
    with Cons show ?thesis by simp
  next
    case (Cons c cs)
    with \<open>xs = b # ys\<close> a show ?thesis by simp
  qed
qed

lemma unreserved_not_percent: "uriUnreserved c \<Longrightarrow> c \<noteq> CHR ''%''"
  by (auto simp: uriUnreserved_def)

lemma percent_decode_encodeByte: "percent_decode (encodeByte c @ rest) = c # percent_decode rest"
proof (cases "uriUnreserved c")
  case True
  then show ?thesis
    by (simp add: encodeByte_def percent_decode_plain unreserved_not_percent)
next
  case False
  have hi: "(of_char c :: nat) div 16 < 16"
    using nat_of_char_less_256 [of c] by (simp add: less_mult_imp_div_less)
  have lo: "(of_char c :: nat) mod 16 < 16" by simp
  from False show ?thesis
    by (simp add: encodeByte_def percentEncode_def hexValue_hexDigit [OF hi]
        hexValue_hexDigit [OF lo])
qed

lemma percent_decode_encodeURIComponent: "percent_decode (encodeURIComponent t) = t"
proof (induction t)
  case Nil
  show ?case by (simp add: encodeURIComponent_def)
next
  case (Cons c t)
  then show ?case by (simp add: encodeURIComponent_def percent_decode_encodeByte del: percent_decode.simps)
qed

lemma hexDigit_plain: "\<not> queryDelimiter (hexDigit n)"
proof -
  have "list_all (\<lambda>k. \<not> queryDelimiter (hexDigit k)) [0..<16]" by code_simp
  moreover have "n mod 16 < 16" by simp
  ultimately have "\<not> queryDelimiter (hexDigit (n mod 16))" by (simp add: list_all_iff)
  then show ?thesis by (simp add: hexDigit_def)
qed

lemma encodeByte_plain: "x \<in> set (encodeByte c) \<Longrightarrow> \<not> queryDelimiter x"
proof (cases "uriUnreserved c")
  case True
  assume "x \<in> set (encodeByte c)"
  with True have "x = c" by (simp add: encodeByte_def)
  with True show ?thesis by (auto simp: uriUnreserved_def queryDelimiter_def)
next
  case False
  assume "x \<in> set (encodeByte c)"
  with False have "x = CHR ''%'' \<or> x = hexDigit (of_char c div 16) \<or> x = hexDigit (of_char c mod 16)"
    by (simp add: encodeByte_def percentEncode_def)
  then show ?thesis using hexDigit_plain by (auto simp: queryDelimiter_def)
qed

lemma encodeURIComponent_plain: "x \<in> set (encodeURIComponent t) \<Longrightarrow> \<not> queryDelimiter x"
  using encodeByte_plain by (auto simp: encodeURIComponent_def)

lemma split_on_first: "d \<notin> set a \<Longrightarrow> split_on d (a @ d # b) = a # split_on d b"
  by (induction a) auto

lemma takeWhile_before: "d \<notin> set a \<Longrightarrow> takeWhile (\<lambda>c. c \<noteq> d) (a @ d # b) = a"
  by (induction a) auto

lemma dropWhile_before: "d \<notin> set a \<Longrightarrow> dropWhile (\<lambda>c. c \<noteq> d) (a @ d # b) = d # b"
  by (induction a) auto

lemma takeWhile_all: "d \<notin> set a \<Longrightarrow> takeWhile (\<lambda>c. c \<noteq> d) a = a"
  by (induction a) auto

lemma escape_example:
  "escapeHtml (Some (''x'' @ [CHR 0x22] @ ''><b>&y'')) = ''x&quot;&gt;&lt;b&gt;&amp;y''"
  by code_simp

section \<open>The serialised redirect URL\<close>

lemma query_encode_append: "query_encode sp (xs @ ys) = query_encode sp xs @ query_encode sp ys"
  by (simp add: query_encode_def)

lemma query_encode_Cons: "query_encode sp (x # xs) = query_encode_byte sp x @ query_encode sp xs"
  by (simp add: query_encode_def)

lemma query_encode_Nil: "query_encode sp [] = []"
  by (simp add: query_encode_def)

lemma query_encode_code: "query_encode sp ''code='' = ''code=''"
  by (simp add: query_encode_def query_encode_byte_def)

lemma query_encode_state: "query_encode sp ''&state='' = ''&state=''"
  by (simp add: query_encode_def query_encode_byte_def)

lemma query_encode_hexDigit: "query_encode_byte sp (hexDigit n) = [hexDigit n]"
proof -
  have "list_all (\<lambda>k. query_encode_byte True (hexDigit k) = [hexDigit k]
                    \<and> query_encode_byte False (hexDigit k) = [hexDigit k]) [0..<16]"
    by code_simp
  moreover have "n mod 16 < 16" by simp
  ultimately have "query_encode_byte True (hexDigit (n mod 16)) = [hexDigit (n mod 16)]
                    \<and> query_encode_byte False (hexDigit (n mod 16)) = [hexDigit (n mod 16)]"
    by (simp add: list_all_iff)
  moreover have "hexDigit (n mod 16) = hexDigit n" by (simp add: hexDigit_def)
  ultimately show ?thesis by (cases sp) simp_all
qed

lemma query_encode_percent: "query_encode_byte sp (CHR ''%'') = ''%''"
  by (simp add: query_encode_byte_def)

lemma query_encode_percentEncode: "query_encode sp (percentEncode c) = percentEncode c"
  by (simp add: percentEncode_def query_encode_Cons query_encode_Nil query_encode_hexDigit
      query_encode_percent)

lemma uriUnreserved_cases:
  assumes "uriUnreserved c"
  shows "c = CHR 0x27 \<or> query_encode_byte sp c = [c]"
  using assms by (auto simp: uriUnreserved_def query_encode_byte_def)

lemma query_encode_apostrophe:
  "query_encode_byte sp (CHR 0x27) = (if sp then ''%27'' else [CHR 0x27])"
  by (simp add: query_encode_byte_def percentEncode_def hexDigit_def)


lemma query_encode_encodeByte:
  "query_encode sp (encodeByte c)
   = (if c = CHR 0x27 \<and> sp then ''%27'' else encodeByte c)"
proof (cases "uriUnreserved c")
  case True
  then have e: "encodeByte c = [c]" by (simp add: encodeByte_def)
  from uriUnreserved_cases [OF True, of sp] show ?thesis
    unfolding e by (auto simp: query_encode_Cons query_encode_Nil query_encode_apostrophe)
next
  case False
  then have e: "encodeByte c = percentEncode c" by (simp add: encodeByte_def)
  have "c \<noteq> CHR 0x27" using False by (auto simp: uriUnreserved_def)
  then show ?thesis unfolding e by (simp add: query_encode_percentEncode)
qed

lemma char_of_39: "char_of (39 :: nat) = CHR 0x27"
  by code_simp

lemma percent_decode_apostrophe: "percent_decode (''%27'' @ rest) = CHR 0x27 # percent_decode rest"
  by (simp add: hexValue_def char_of_39)

lemma percent_decode_query_encodeByte:
  "percent_decode (query_encode sp (encodeByte c) @ rest) = c # percent_decode rest"
  unfolding query_encode_encodeByte
  using percent_decode_apostrophe [of rest] percent_decode_encodeByte [of c rest]
  by (simp del: percent_decode.simps)

lemma percent_decode_query_encode:
  "percent_decode (query_encode sp (encodeURIComponent t)) = t"
proof (induction t)
  case Nil
  show ?case by (simp add: encodeURIComponent_def query_encode_def)
next
  case (Cons c t)
  have "query_encode sp (encodeURIComponent (c # t))
        = query_encode sp (encodeByte c) @ query_encode sp (encodeURIComponent t)"
    by (simp add: encodeURIComponent_def query_encode_append)
  then show ?case using Cons by (simp only: percent_decode_query_encodeByte)
qed

lemma query_encode_plain:
  assumes "x \<in> set (query_encode sp (encodeURIComponent t))"
  shows "\<not> queryDelimiter x"
proof -
  from assms obtain c where c: "c \<in> set t" "x \<in> set (query_encode sp (encodeByte c))"
    by (auto simp: encodeURIComponent_def query_encode_def)
  show ?thesis
  proof (cases "c = CHR 0x27 \<and> sp")
    case True
    with c(2) have "x \<in> set ''%27''" by (simp add: query_encode_encodeByte)
    then show ?thesis by (auto simp: queryDelimiter_def)
  next
    case False
    with c(2) have "x \<in> set (encodeByte c)" by (auto simp: query_encode_encodeByte)
    then show ?thesis by (rule encodeByte_plain)
  qed
qed

lemma query_encode_unchanged:
  assumes "CHR 0x27 \<notin> set t \<or> \<not> sp"
  shows "query_encode sp (encodeURIComponent t) = encodeURIComponent t"
  using assms
  by (induction t)
     (auto simp: encodeURIComponent_def query_encode_append query_encode_Nil
        query_encode_encodeByte)

lemma form_decode_query_encode: "form_decode (query_encode sp (encodeURIComponent t)) = t"
proof -
  have "map (\<lambda>c. if c = CHR ''+'' then CHR '' '' else c) (query_encode sp (encodeURIComponent t))
        = query_encode sp (encodeURIComponent t)"
    using query_encode_plain [of _ sp t] by (intro map_idI) (auto simp: queryDelimiter_def)
  then show ?thesis by (simp add: form_decode_def percent_decode_query_encode)
qed

lemma query_get_code_param:
  assumes b: "CHR ''?'' \<notin> set b" "CHR ''#'' \<notin> set b"
    and E: "\<And>x. x \<in> set E \<Longrightarrow> \<not> queryDelimiter x" and F: "\<And>x. x \<in> set F \<Longrightarrow> \<not> queryDelimiter x"
    and d: "form_decode E = t"
  shows "query_get (b @ ''?code='' @ E @ ''&state='' @ F) ''code'' = Some t"
proof -
  let ?q = "''code='' @ E @ ''&state='' @ F"
  have nohash: "CHR ''#'' \<notin> set (b @ ''?'' @ ?q)"
    using b E F by (auto simp: queryDelimiter_def)
  have q: "url_query (b @ ''?'' @ ?q) = ?q"
    unfolding url_query_def takeWhile_all [OF nohash]
    using dropWhile_before [OF b(1), of ?q] by simp
  have amp: "CHR ''&'' \<notin> set (''code='' @ E)"
    using E by (auto simp: queryDelimiter_def)
  have sp: "split_on (CHR ''&'') ?q = (''code='' @ E) # split_on (CHR ''&'') (''state='' @ F)"
    using split_on_first [OF amp, of "''state='' @ F"] by simp
  have eq: "CHR ''='' \<notin> set ''code''" by simp
  have name: "form_decode ''code'' = ''code''" by (simp add: form_decode_def)
  have pair: "query_pair (''code='' @ E) = (''code'', t)"
    unfolding query_pair_def
    using takeWhile_before [OF eq, of E] dropWhile_before [OF eq, of E]
    by (simp add: d name)
  have "query_params (b @ ''?'' @ ?q) = (''code'', t) # map query_pair (filter (\<lambda>seg. seg \<noteq> []) (split_on (CHR ''&'') (''state='' @ F)))"
    unfolding query_params_def q sp using pair by simp
  then show ?thesis by (simp add: query_get_def)
qed


lemma hexDigit_unreserved: "uriUnreserved (hexDigit n)"
proof -
  have "list_all (\<lambda>k. uriUnreserved (hexDigit k)) [0..<16]" by code_simp
  moreover have "n mod 16 < 16" by simp
  ultimately have "uriUnreserved (hexDigit (n mod 16))" by (simp add: list_all_iff)
  then show ?thesis by (simp add: hexDigit_def)
qed

lemma encodeURIComponent_chars:
  assumes "x \<in> set (encodeURIComponent t)"
  shows "uriUnreserved x \<or> x = CHR ''%''"
proof -
  from assms obtain c where "x \<in> set (encodeByte c)"
    by (auto simp: encodeURIComponent_def)
  then show ?thesis
    using hexDigit_unreserved
    by (cases "uriUnreserved c") (auto simp: encodeByte_def percentEncode_def)
qed

lemma unreserved_visible:
  assumes "uriUnreserved x \<or> x = CHR ''%''"
  shows "\<not> c0_or_space x" and "x \<noteq> CHR '':''" and "x \<noteq> CHR ''#''" and "x \<noteq> CHR ''?''"
  using assms by (auto simp: uriUnreserved_def c0_or_space_def)

lemma tab_is_c0: "tab_or_newline c \<Longrightarrow> c0_or_space c"
  by (auto simp: tab_or_newline_def c0_or_space_def)

lemma url_clean_append:
  assumes "tail \<noteq> []" and "\<And>x. x \<in> set tail \<Longrightarrow> \<not> c0_or_space x"
  shows "url_clean (r @ tail) = remove_tab_newline (trim_start r) @ tail"
proof -
  have hd: "\<not> c0_or_space (hd tail)" using assms by simp
  have 1: "trim_start (r @ tail) = trim_start r @ tail"
    unfolding trim_start_def using assms(1) hd
    by (induction r) (auto simp: neq_Nil_conv)
  have last: "\<not> c0_or_space (last tail)" using assms by simp
  have "dropWhile c0_or_space (rev tail @ ys) = rev tail @ ys" for ys
    using assms(1) last by (cases tail rule: rev_cases) auto
  then have 2: "trim_end (xs @ tail) = xs @ tail" for xs
    by (simp add: trim_end_def)
  have 3: "remove_tab_newline (xs @ tail) = remove_tab_newline xs @ tail" for xs
    using assms(2) tab_is_c0 by (auto simp: remove_tab_newline_def filter_id_conv)
  show ?thesis by (simp add: url_clean_def 1 2 3)
qed

lemma url_scheme_append:
  assumes "CHR '':'' \<notin> set tail"
  shows "url_scheme (base @ tail) = url_scheme base"
proof (cases "CHR '':'' \<in> set base")
  case True
  then have "takeWhile (\<lambda>c. c \<noteq> CHR '':'') (base @ tail) = takeWhile (\<lambda>c. c \<noteq> CHR '':'') base"
    using takeWhile_append1 [of "CHR '':''" base "\<lambda>c. c \<noteq> CHR '':''" tail] by simp
  with True show ?thesis by (simp add: url_scheme_def split: list.splits)
next
  case False
  with assms show ?thesis by (simp add: url_scheme_def split: list.splits)
qed


lemma remove_trim_subset: "set (remove_tab_newline (trim_start r)) \<subseteq> set r"
  unfolding remove_tab_newline_def trim_start_def
  using set_dropWhileD [of _ c0_or_space r] by auto

lemma base_serialised_plain:
  assumes "base_serialised e base = Some b"
  shows "CHR ''?'' \<notin> set b" and "CHR ''#'' \<notin> set b"
proof -
  from assms obtain b0 where
    b: "b = concat (map (\<lambda>c. if c = CHR ''?'' \<or> c = CHR ''#'' then percentEncode c else [c]) b0)"
    by (auto simp: base_serialised_def)
  have "\<not> queryDelimiter x" if "x \<in> set (percentEncode c)" for x c
    using that hexDigit_plain by (auto simp: percentEncode_def queryDelimiter_def)
  then have "x \<noteq> CHR ''?'' \<and> x \<noteq> CHR ''#''" if "x \<in> set b" for x
    using that unfolding b by (auto simp: queryDelimiter_def split: if_splits)
  then show "CHR ''?'' \<notin> set b" and "CHR ''#'' \<notin> set b" by auto
qed

lemma redirect_location_callback:
  assumes r: "CHR ''?'' \<notin> set r" "CHR ''#'' \<notin> set r"
  shows "redirect_location e
           (r @ ''?code='' @ encodeURIComponent t @ ''&state='' @ encodeURIComponent s)
         = (case url_scheme (remove_tab_newline (trim_start r)) of
              None \<Rightarrow> None
            | Some scheme \<Rightarrow>
                (case base_serialised e (remove_tab_newline (trim_start r)) of
                   None \<Rightarrow> None
                 | Some b \<Rightarrow>
                     Some (b @ ''?code=''
                             @ query_encode (special_scheme scheme) (encodeURIComponent t)
                             @ ''&state=''
                             @ query_encode (special_scheme scheme) (encodeURIComponent s))))"
proof -
  let ?E = "encodeURIComponent t" and ?F = "encodeURIComponent s"
  let ?q = "''code='' @ ?E @ ''&state='' @ ?F"
  let ?tail = "CHR ''?'' # ?q"
  let ?base = "remove_tab_newline (trim_start r)"
  have chars: "uriUnreserved x \<or> x = CHR ''%''" if "x \<in> set ?E \<or> x \<in> set ?F" for x
    using that encodeURIComponent_chars by blast
  have vis: "\<not> c0_or_space x" if "x \<in> set ?tail" for x
  proof -
    from that consider "x \<in> set ''?code=&state=''" | "x \<in> set ?E \<or> x \<in> set ?F" by auto
    then show ?thesis
    proof cases
      case 1
      then show ?thesis by (auto simp: c0_or_space_def)
    next
      case 2
      then show ?thesis using chars unreserved_visible(1) by blast
    qed
  qed
  have nocolon: "CHR '':'' \<notin> set ?tail"
    using chars unreserved_visible(2) by auto
  have nohash: "CHR ''#'' \<notin> set ?tail"
    using chars unreserved_visible(3) by auto
  have clean: "url_clean (r @ ?tail) = ?base @ ?tail"
    by (rule url_clean_append) (use vis in auto)
  have base: "\<forall>x \<in> set ?base. x \<noteq> CHR ''?'' \<and> x \<noteq> CHR ''#''"
    using r remove_trim_subset [of r] by auto
  have tw: "takeWhile (\<lambda>c. c \<noteq> CHR ''?'' \<and> c \<noteq> CHR ''#'') (?base @ ?tail) = ?base"
    using base by (simp add: takeWhile_append2)
  have dw: "dropWhile (\<lambda>c. c \<noteq> CHR ''?'' \<and> c \<noteq> CHR ''#'') (?base @ ?tail) = ?tail"
    using base by (simp add: dropWhile_append2)
  have q: "takeWhile (\<lambda>c. c \<noteq> CHR ''#'') ?tail = ?tail"
    using nohash by (subst takeWhile_eq_all_conv) auto
  have f: "dropWhile (\<lambda>c. c \<noteq> CHR ''#'') ?tail = []"
    using nohash by (subst dropWhile_eq_Nil_conv) auto
  have sch: "url_scheme (?base @ ?tail) = url_scheme ?base"
    using nocolon by (rule url_scheme_append)
  have enc: "query_encode sp ?q = ''code='' @ query_encode sp ?E @ ''&state='' @ query_encode sp ?F" for sp
    using query_encode_code [of sp] query_encode_state [of sp]
    by (simp only: query_encode_append)
  have "redirect_location e (r @ ?tail)
         = (case url_scheme ?base of
              None \<Rightarrow> None
            | Some scheme \<Rightarrow>
                (case base_serialised e ?base of
                   None \<Rightarrow> None
                 | Some b \<Rightarrow> Some (b @ ''?'' @ query_encode (special_scheme scheme) ?q)))"
    unfolding redirect_location_def Let_def clean tw dw q f sch
    by (simp split: option.splits)
  then show ?thesis by (simp add: enc [simplified] split: option.splits)
qed

section \<open>Text decoding\<close>

lemma utf8_decode_well_formed:
  "utf8_well_formed bs \<Longrightarrow> utf8_decode 0 0x80 0xBF [] bs = bs"
proof (induction bs rule: utf8_well_formed.induct)
  case 1
  show ?case by simp
next
  case (2 b bs)
  consider (one) "(of_char b :: nat) \<le> 0x7F"
    | (two) "\<not> (of_char b :: nat) \<le> 0x7F" "in_range 0xC2 0xDF b"
    | (three) "\<not> (of_char b :: nat) \<le> 0x7F" "\<not> in_range 0xC2 0xDF b" "in_range 0xE0 0xEF b"
    | (four) "\<not> (of_char b :: nat) \<le> 0x7F" "\<not> in_range 0xC2 0xDF b" "\<not> in_range 0xE0 0xEF b"
        "in_range 0xF0 0xF4 b"
    using "2.prems" by (auto split: if_splits)
  then show ?case
  proof cases
    case one
    with 2 show ?thesis by simp
  next
    case two
    with "2.prems" obtain c1 rest where bs: "bs = c1 # rest"
      and c: "in_range 0x80 0xBF c1" and r: "utf8_well_formed rest"
      by (auto split: list.splits)
    from "2.IH"(2) [OF two bs] r have "utf8_decode 0 0x80 0xBF [] rest = rest" by simp
    with two c show ?thesis unfolding bs by (simp add: in_range_def)
  next
    case three
    with "2.prems" obtain c1 c2 rest where bs: "bs = c1 # c2 # rest"
      and c: "in_range (if b = CHR 0xE0 then 0xA0 else 0x80) (if b = CHR 0xED then 0x9F else 0xBF) c1"
        "in_range 0x80 0xBF c2" and r: "utf8_well_formed rest"
      by (auto split: list.splits)
    from "2.IH"(3) [OF three bs] r have "utf8_decode 0 0x80 0xBF [] rest = rest" by simp
    with three c show ?thesis unfolding bs by (simp add: in_range_def)
  next
    case four
    with "2.prems" obtain c1 c2 c3 rest where bs: "bs = c1 # c2 # c3 # rest"
      and c: "in_range (if b = CHR 0xF0 then 0x90 else 0x80) (if b = CHR 0xF4 then 0x8F else 0xBF) c1"
        "in_range 0x80 0xBF c2" "in_range 0x80 0xBF c3" and r: "utf8_well_formed rest"
      by (auto split: list.splits)
    from "2.IH"(4) [OF four bs] r have "utf8_decode 0 0x80 0xBF [] rest = rest" by simp
    with four c show ?thesis unfolding bs by (simp add: in_range_def)
  qed
qed

lemma utf8_text_well_formed:
  assumes "utf8_well_formed bs" and "\<not> startsWith bs [CHR 0xEF, CHR 0xBB, CHR 0xBF]"
  shows "utf8_text bs = bs"
  using assms by (simp add: utf8_text_def utf8_decode_well_formed)

lemma trim_nothing:
  assumes "list_all (\<lambda>x. \<not> c0_or_space x) r"
  shows "remove_tab_newline (trim_start r) = r"
proof -
  have "trim_start r = r"
    using assms by (cases r) (auto simp: trim_start_def)
  moreover have "remove_tab_newline r = r"
    using assms tab_is_c0 by (auto simp: remove_tab_newline_def filter_id_conv list_all_iff)
  ultimately show ?thesis by simp
qed

lemma query_encode_abc123: "query_encode True (encodeURIComponent ''abc123'') = ''abc123''"
  by code_simp

lemma query_encode_xyz: "query_encode True (encodeURIComponent ''xyz'') = ''xyz''"
  by code_simp

lemma scheme_chat_example: "url_scheme ''https://chat.example/cb'' = Some ''https''"
  by code_simp

lemma trim_chat_example:
  "remove_tab_newline (trim_start ''https://chat.example/cb'') = ''https://chat.example/cb''"
  by code_simp

lemma text_no_such_course: "utf8_text ''no such course'' = ''no such course''"
  by code_simp

lemma text_name_n: "utf8_text ''name=n'' = ''name=n''"
  by code_simp

section \<open>The shape of the responses\<close>

lemma api_path_not_route:
  assumes "startsWith p ''/api/v1/''"
  shows "p \<noteq> ''/''" and "p \<noteq> []" and "p \<noteq> ''/authorize''" and "p \<noteq> ''/callback''"
    and "p \<noteq> ''/token''"
  using assms by (auto simp: startsWith_def)

lemma fetch_proxy:
  assumes "req_method req \<noteq> ''OPTIONS''" and "startsWith (pathname req) ''/api/v1/''"
  shows "fetch e req = proxy_route e req"
  using assms api_path_not_route [OF assms(2)] by (simp add: fetch_def)

lemma cors_origin_mem: "(''Access-Control-Allow-Origin'', ''*'') \<in> set corsHeaders"
  by (simp add: corsHeaders_def)

lemma corsHeaders_length: "length corsHeaders = 3"
  by (simp add: corsHeaders_def)

lemma new_Response_Inr:
  "new_Response b st hs = Inr resp \<Longrightarrow> resp = \<lparr>status = st, headers = hs, body = b\<rparr>"
  by (simp add: new_Response_def split: if_splits)

lemma with_cors_kind:
  assumes "headers resp = corsHeaders \<or> (\<exists>h. headers resp = h # corsHeaders)"
  shows "carries_cors resp \<and> \<not> plain_400 resp \<and> \<not> bare_redirect resp"
proof -
  have c: "carries_cors resp"
    using assms by (auto simp: carries_cors_def)
  have len: "3 \<le> length (headers resp)"
    using assms corsHeaders_length by auto
  have p: "\<not> plain_400 resp"
  proof
    assume "plain_400 resp"
    then have "headers resp = []" by (auto simp: plain_400_def)
    with len show False by simp
  qed
  have b: "\<not> bare_redirect resp"
  proof
    assume "bare_redirect resp"
    then have "length (map fst (headers resp)) = 1" by (simp add: bare_redirect_def)
    with len show False by simp
  qed
  from c p b show ?thesis by blast
qed

lemma without_cors:
  assumes "headers resp = [] \<or> (\<exists>h. headers resp = [(''Location'', h)])"
  shows "\<not> carries_cors resp"
proof
  assume "carries_cors resp"
  then have "(''Access-Control-Allow-Origin'', ''*'') \<in> set (headers resp)"
    using cors_origin_mem by (auto simp: carries_cors_def)
  with assms show False by auto
qed

lemma token_reply_headers:
  assumes "token_reply c = Inr resp"
  shows "headers resp = (''Content-Type'', ''application/json'') # corsHeaders"
proof (cases "truthy c")
  case True
  with assms show ?thesis by (auto simp: token_reply_def dest: new_Response_Inr)
next
  case False
  with assms show ?thesis by (auto simp: token_reply_def dest: new_Response_Inr)
qed

lemma token_route_headers:
  assumes "token_route req = Inr resp"
  shows "headers resp = (''Content-Type'', ''application/json'') # corsHeaders"
proof -
  let ?ct = "or_else (req_headers req ''Content-Type'') []"
  consider (form) "str_includes ?ct ''application/x-www-form-urlencoded''"
    | (js) "\<not> str_includes ?ct ''application/x-www-form-urlencoded''" "str_includes ?ct ''application/json''"
    | (other) "\<not> str_includes ?ct ''application/x-www-form-urlencoded''" "\<not> str_includes ?ct ''application/json''"
    by blast
  then show ?thesis
  proof cases
    case form
    with assms show ?thesis
      by (auto simp: token_route_def Let_def split: option.splits dest: token_reply_headers)
  next
    case js
    with assms show ?thesis
      by (auto simp: token_route_def Let_def split: option.splits dest: token_reply_headers)
  next
    case other
    with assms show ?thesis
      by (auto simp: token_route_def Let_def split: option.splits
          dest: token_reply_headers new_Response_Inr)
  qed
qed

lemma proxy_route_headers:
  assumes "proxy_route e req = Inr resp"
  shows "\<exists>h. headers resp = h # corsHeaders"
proof (cases "or_else (req_headers req ''Authorization'') [] = []")
  case True
  with assms show ?thesis
    by (auto simp: proxy_route_def Let_def dest: new_Response_Inr)
next
  case False
  with assms show ?thesis
    by (auto simp: proxy_route_def Let_def split: option.splits dest: new_Response_Inr)
qed

lemma authorize_route_kind:
  assumes "authorize_route req = Inr resp"
  shows "resp = \<lparr>status = 400, headers = [], body = Text ''Missing redirect_uri''\<rparr>
         \<or> (\<exists>h. headers resp = h # corsHeaders)"
proof (cases "map_of (searchParams req) ''redirect_uri'' = None
              \<or> map_of (searchParams req) ''redirect_uri'' = Some []")
  case True
  with assms have "new_Response (Text ''Missing redirect_uri'') 400 [] = Inr resp"
    by (simp add: authorize_route_def Let_def)
  then show ?thesis by (auto dest: new_Response_Inr)
next
  case False
  with assms have "new_Response
     (getAuthPage (map_of (searchParams req) ''redirect_uri'') (map_of (searchParams req) ''state''))
     200 ((''Content-Type'', ''text/html'') # corsHeaders) = Inr resp"
    by (simp add: authorize_route_def Let_def)
  then show ?thesis by (auto dest: new_Response_Inr)
qed

lemma Response_redirect_Inr:
  assumes "Response_redirect e url st = Inr resp"
  shows "\<exists>h. resp = \<lparr>status = st, headers = [(''Location'', h)], body = NoBody\<rparr>"
  using assms by (auto simp: Response_redirect_def split: option.splits)

lemma callback_route_kind:
  assumes "callback_route e req = Inr resp"
  shows "resp = \<lparr>status = 400, headers = [], body = Text ''Missing token or redirect_uri''\<rparr>
         \<or> (\<exists>h. resp = \<lparr>status = 302, headers = [(''Location'', h)], body = NoBody\<rparr>)"
proof (cases "formData req")
  case None
  with assms show ?thesis by (simp add: callback_route_def)
next
  case (Some fd)
  show ?thesis
  proof (cases "\<exists>tk ru. map_of fd ''token'' = Some tk \<and> map_of fd ''redirect_uri'' = Some ru
                  \<and> truthy (form_js (Some tk)) \<and> truthy (form_js (Some ru))")
    case True
    then obtain tk ru where f: "map_of fd ''token'' = Some tk" "map_of fd ''redirect_uri'' = Some ru"
      "truthy (form_js (Some tk))" "truthy (form_js (Some ru))" by blast
    with assms Some have "\<exists>url. Response_redirect e url 302 = Inr resp"
      by (auto simp: callback_route_def)
    then show ?thesis by (auto dest: Response_redirect_Inr)
  next
    case False
    with assms Some have "new_Response (Text ''Missing token or redirect_uri'') 400 [] = Inr resp"
      by (auto simp: callback_route_def split: option.splits if_splits)
    then show ?thesis by (auto dest: new_Response_Inr)
  qed
qed

lemma fetch_kind:
  assumes "fetch e req = Inr resp"
  shows "(headers resp = corsHeaders \<or> (\<exists>h. headers resp = h # corsHeaders))
         \<or> resp = \<lparr>status = 400, headers = [], body = Text ''Missing redirect_uri''\<rparr>
         \<or> resp = \<lparr>status = 400, headers = [], body = Text ''Missing token or redirect_uri''\<rparr>
         \<or> (\<exists>h. resp = \<lparr>status = 302, headers = [(''Location'', h)], body = NoBody\<rparr>)"
proof -
  consider (options) "req_method req = ''OPTIONS''"
    | (home) "req_method req \<noteq> ''OPTIONS''" "pathname req = ''/'' \<or> pathname req = []"
    | (authorize) "fetch e req = authorize_route req"
    | (callback) "fetch e req = callback_route e req"
    | (token) "fetch e req = token_route req"
    | (proxy) "fetch e req = proxy_route e req"
    | (fallback) "fetch e req = new_Response (Text ''Not found'') 404 corsHeaders"
    unfolding fetch_def by (cases "req_method req = ''OPTIONS''") presburger+
  then show ?thesis
  proof cases
    case options
    with assms have "new_Response NoBody 200 corsHeaders = Inr resp" by (simp add: fetch_def)
    then show ?thesis by (auto dest: new_Response_Inr)
  next
    case home
    with assms have "new_Response getHomePage 200 ((''Content-Type'', ''text/html'') # corsHeaders) = Inr resp"
      by (simp add: fetch_def)
    then show ?thesis by (auto dest: new_Response_Inr)
  next
    case authorize
    with assms authorize_route_kind [of req resp] show ?thesis by auto
  next
    case callback
    with assms callback_route_kind [of e req resp] show ?thesis by auto
  next
    case token
    with assms token_route_headers [of req resp] show ?thesis by auto
  next
    case proxy
    with assms proxy_route_headers [of e req resp] show ?thesis by auto
  next
    case fallback
    with assms show ?thesis by (auto dest: new_Response_Inr)
  qed
qed

lemma token_reply_falsy:
  "\<not> truthy c \<Longrightarrow> token_reply c
     = Inr \<lparr>status = 400,
             headers = (''Content-Type'', ''application/json'') # corsHeaders,
             body = Json (JObj [(''error'', JStr ''Missing code'')])\<rparr>"
  by (simp add: token_reply_def new_Response_def)

lemma token_reply_not_invalid:
  "token_reply c
   \<noteq> Inr \<lparr>status = 400,
           headers = (''Content-Type'', ''application/json'') # corsHeaders,
           body = Json (JObj [(''error'', JStr ''Invalid request format'')])\<rparr>"
  by (simp add: token_reply_def new_Response_def)

section \<open>The two handlers side by side\<close>

lemma part_000_options:
  "req_method req = ''OPTIONS'' \<Longrightarrow> fetch_part_000 e req = fetch e req"
  by (simp add: fetch_def fetch_part_000_def corsHeaders_def)

lemma part_000_callback:
  assumes "pathname req = ''/callback''" and "req_method req = ''POST''"
  shows "fetch_part_000 e req = fetch e req"
  using assms by (simp add: fetch_def fetch_part_000_def callback_route_def)

lemma part_000_token:
  assumes "pathname req = ''/token''" and "req_method req = ''POST''"
  shows "fetch_part_000 e req = fetch e req"
  using assms
  by (simp add: fetch_def fetch_part_000_def token_route_def token_reply_def corsHeaders_def
      Let_def split: option.splits)

lemma part_000_home:
  assumes "req_method req \<noteq> ''OPTIONS''" and "pathname req = ''/'' \<or> pathname req = []"
  shows "fetch e req
         = Inr \<lparr>status = 200,
                 headers = (''Content-Type'', ''text/html'') # corsHeaders,
                 body = HomePage IndexJs\<rparr>"
    and "fetch_part_000 e req
         = Inr \<lparr>status = 200,
                 headers = (''Content-Type'', ''text/html'') # corsHeaders,
                 body = HomePage Part000\<rparr>"
  using assms
  by (auto simp: fetch_def fetch_part_000_def new_Response_def getHomePage_def corsHeaders_def)

lemma part_000_authorize:
  assumes "req_method req \<noteq> ''OPTIONS''" and "pathname req = ''/authorize''"
    and "map_of (searchParams req) ''redirect_uri'' = Some r" and "r \<noteq> []"
  shows "fetch e req
         = Inr \<lparr>status = 200,
                 headers = (''Content-Type'', ''text/html'') # corsHeaders,
                 body = AuthPage IndexJs (escapeHtml (Some r))
                          (escapeHtml (map_of (searchParams req) ''state''))\<rparr>"
    and "fetch_part_000 e req
         = Inr \<lparr>status = 200,
                 headers = (''Content-Type'', ''text/html'') # corsHeaders,
                 body = AuthPage Part000 r (or_else (map_of (searchParams req) ''state'') [])\<rparr>"
  using assms
  by (auto simp: fetch_def fetch_part_000_def new_Response_def authorize_route_def
      getAuthPage_def getAuthPage_part_000_def corsHeaders_def)

lemma part_000_authorize_missing:
  assumes "req_method req \<noteq> ''OPTIONS''" and "pathname req = ''/authorize''"
    and "map_of (searchParams req) ''redirect_uri'' = None
         \<or> map_of (searchParams req) ''redirect_uri'' = Some []"
  shows "fetch_part_000 e req = fetch e req"
  using assms
  by (auto simp: fetch_def fetch_part_000_def authorize_route_def)

lemma part_000_api:
  assumes "req_method req \<noteq> ''OPTIONS''" and "startsWith (pathname req) ''/api/v1/''"
  shows "fetch_part_000 e req
         = Inr \<lparr>status = 404, headers = corsHeaders, body = Text ''Not found''\<rparr>"
  using assms api_path_not_route [OF assms(2)]
  by (simp add: fetch_part_000_def new_Response_def corsHeaders_def)

lemma proxy_never_fallback:
  "proxy_route e req \<noteq> Inr \<lparr>status = 404, headers = corsHeaders, body = Text ''Not found''\<rparr>"
proof
  assume a: "proxy_route e req = Inr \<lparr>status = 404, headers = corsHeaders, body = Text ''Not found''\<rparr>"
  from proxy_route_headers [OF a] obtain h where "corsHeaders = h # corsHeaders" by auto
  then show False by simp
qed

lemma part_000_fallback:
  assumes "req_method req \<noteq> ''OPTIONS''" and "pathname req \<noteq> ''/''" and "pathname req \<noteq> []"
    and "pathname req \<noteq> ''/authorize''"
    and "\<not> (pathname req = ''/callback'' \<and> req_method req = ''POST'')"
    and "\<not> (pathname req = ''/token'' \<and> req_method req = ''POST'')"
    and "\<not> startsWith (pathname req) ''/api/v1/''"
  shows "fetch_part_000 e req = fetch e req"
proof -
  have "fetch e req = new_Response (Text ''Not found'') 404 corsHeaders"
    using assms by (auto simp: fetch_def)
  moreover have "fetch_part_000 e req = new_Response (Text ''Not found'') 404 corsHeaders"
    using assms by (auto simp: fetch_part_000_def corsHeaders_def)
  ultimately show ?thesis by simp
qed

lemma html_decode_length: "length (html_decode xs) \<le> length xs"
proof (induction "length xs" arbitrary: xs rule: less_induct)
  case less
  show ?case
  proof (cases xs)
    case Nil
    then show ?thesis by simp
  next
    case (Cons c cs)
    have IH: "length (html_decode (drop n cs)) \<le> length cs" for n
    proof -
      have "length (drop n cs) < length xs" using Cons by simp
      from less [OF this] show ?thesis by simp
    qed
    show ?thesis
      unfolding Cons using IH [of 0] IH [of 3] IH [of 4] IH [of 5] by simp
  qed
qed

lemma quote_breaks_attribute:
  assumes "CHR 0x22 \<in> set r"
  shows "html_attr_value r \<noteq> r"
proof -
  have "length (takeWhile (\<lambda>c. c \<noteq> CHR 0x22) r) < length r"
    using assms by (induction r) auto
  moreover have "length (html_attr_value r) \<le> length (takeWhile (\<lambda>c. c \<noteq> CHR 0x22) r)"
    unfolding html_attr_value_def by (rule html_decode_length)
  ultimately show ?thesis by auto
qed

section \<open>Token exchange\<close>

text \<open>
  C1, as stated, fails at the empty credential: a \<open>POST /token\<close> whose JSON body
  carries \<open>code\<close> equal to the empty string is answered 400 "Missing code", not 200.
\<close>

theorem token_empty_code_rejected:
  "fetch plain_env
     (blank_request\<lparr>req_method := ''POST'', pathname := ''/token'',
        req_headers := [''Content-Type'' \<mapsto> ''application/json''],
        json := Some (JObj [(''code'', JStr [])])\<rparr>)
   = Inr \<lparr>status = 400,
           headers = (''Content-Type'', ''application/json'') # corsHeaders,
           body = Json (JObj [(''error'', JStr ''Missing code'')])\<rparr>"
  by (simp add: fetch_def token_route_def token_reply_def new_Response_def blank_request_def
        startsWith_def)

text \<open>
  C1 (amended): for every non-empty credential string \<open>t\<close>, a \<open>POST /token\<close>
  request carrying \<open>code = t\<close> as a string (in a form body when the content type
  contains \<open>application/x-www-form-urlencoded\<close>, in a JSON object when it contains
  \<open>application/json\<close>, or in a form body that parses under any other content type)
  returns status 200 with the CORS headers and the JSON body
  \<open>{access_token: t, token_type: "Bearer", scope: "read write"}\<close>, the access token
  being \<open>t\<close> unchanged.
\<close>

theorem token_exchange_returns_code:
  assumes "req_method req = ''POST''" and "pathname req = ''/token''" and "t \<noteq> []"
    and "(str_includes (or_else (req_headers req ''Content-Type'') []) ''application/x-www-form-urlencoded''
          \<and> (\<exists>fd. formData req = Some fd \<and> map_of fd ''code'' = Some (FString t)))
       \<or> (\<not> str_includes (or_else (req_headers req ''Content-Type'') []) ''application/x-www-form-urlencoded''
          \<and> str_includes (or_else (req_headers req ''Content-Type'') []) ''application/json''
          \<and> (\<exists>kvs. json req = Some (JObj kvs) \<and> map_of kvs ''code'' = Some (JStr t)))
       \<or> (\<not> str_includes (or_else (req_headers req ''Content-Type'') []) ''application/x-www-form-urlencoded''
          \<and> \<not> str_includes (or_else (req_headers req ''Content-Type'') []) ''application/json''
          \<and> (\<exists>fd. formData req = Some fd \<and> map_of fd ''code'' = Some (FString t)))"
  shows "fetch e req
         = Inr \<lparr>status = 200,
                 headers = (''Content-Type'', ''application/json'') # corsHeaders,
                 body = Json (JObj [(''access_token'', JStr t), (''token_type'', JStr ''Bearer''),
                                    (''scope'', JStr ''read write'')])\<rparr>"
proof -
  have route: "fetch e req = token_route req"
    using assms(1,2) by (simp add: fetch_def)
  have reply: "token_reply (JStr t)
         = Inr \<lparr>status = 200,
                 headers = (''Content-Type'', ''application/json'') # corsHeaders,
                 body = Json (JObj [(''access_token'', JStr t), (''token_type'', JStr ''Bearer''),
                                    (''scope'', JStr ''read write'')])\<rparr>"
    using assms(3) by (simp add: token_reply_def new_Response_def)
  have "token_route req = token_reply (JStr t)"
    using assms(4) by (auto simp: token_route_def Let_def)
  with route reply show ?thesis by simp
qed

text \<open>The theorem at the JSON body \<open>{"code":"abc123"}\<close>.\<close>

theorem token_exchange_returns_code_witness:
  "fetch plain_env
     (blank_request\<lparr>req_method := ''POST'', pathname := ''/token'',
        req_headers := [''Content-Type'' \<mapsto> ''application/json''],
        json := Some (JObj [(''code'', JStr ''abc123'')])\<rparr>)
   = Inr \<lparr>status = 200,
           headers = (''Content-Type'', ''application/json'') # corsHeaders,
           body = Json (JObj [(''access_token'', JStr ''abc123''), (''token_type'', JStr ''Bearer''),
                              (''scope'', JStr ''read write'')])\<rparr>"
  by (rule token_exchange_returns_code) (simp_all add: blank_request_def startsWith_def)

section \<open>The redirect of \<open>/callback\<close>\<close>

text \<open>
  C2, as stated, fails at the empty credential, which is answered 400; at a redirect
  target that is not a URL, where \<open>Response.redirect\<close> throws; and at a redirect target
  that already has a query: the handler appends \<open>?code=...\<close> to the target as it is,
  so the \<open>Location\<close> has no \<open>code\<close> query parameter.
\<close>

theorem callback_empty_token_or_bad_target:
  "fetch plain_env
     (blank_request\<lparr>req_method := ''POST'', pathname := ''/callback'',
        formData := Some [(''token'', FString []),
                          (''redirect_uri'', FString ''https://chat.example/cb'')]\<rparr>)
   = Inr \<lparr>status = 400, headers = [], body = Text ''Missing token or redirect_uri''\<rparr>
   \<and> fetch plain_env
     (blank_request\<lparr>req_method := ''POST'', pathname := ''/callback'',
        formData := Some [(''token'', FString ''abc''),
                          (''redirect_uri'', FString ''notaurl'')]\<rparr>)
   = Inl RedirectUrlError
   \<and> fetch plain_env
     (blank_request\<lparr>req_method := ''POST'', pathname := ''/callback'',
        formData := Some [(''token'', FString ''abc''),
                          (''redirect_uri'', FString ''https://chat.example/cb?a=1'')]\<rparr>)
   = Inr \<lparr>status = 302,
           headers = [(''Location'', ''https://chat.example/cb?a=1?code=abc&state='')],
           body = NoBody\<rparr>
   \<and> query_get ''https://chat.example/cb?a=1?code=abc&state='' ''code'' = None"
  by code_simp

text \<open>
  C2 (amended): for every non-empty credential string \<open>t\<close>, every optional state and
  every non-empty redirect target \<open>r\<close> without \<open>?\<close> and \<open>#\<close> that the URL
  parser of \<open>Response.redirect\<close> accepts, a \<open>POST /callback\<close> with form fields
  \<open>token = t\<close> and \<open>redirect_uri = r\<close> returns a 302 whose \<open>Location\<close> is
  \<open>r\<close>, as the parser serialises it, followed by
  \<open>?code=<t encoded>&state=<state encoded, or empty>\<close> (an apostrophe is written
  \<open>%27\<close> under a special scheme, and nothing else changes); the \<open>code\<close> query
  parameter of that \<open>Location\<close>, decoded, is \<open>t\<close>. When the parser rejects the
  target the handler throws.
\<close>

theorem callback_redirect_roundtrip:
  assumes "req_method req = ''POST''" and "pathname req = ''/callback''"
    and "formData req = Some fd"
    and "map_of fd ''token'' = Some (FString t)" and "t \<noteq> []"
    and "map_of fd ''redirect_uri'' = Some (FString r)" and "r \<noteq> []"
    and "CHR ''?'' \<notin> set r" and "CHR ''#'' \<notin> set r"
    and "s = form_or_empty (map_of fd ''state'')"
    and "base = remove_tab_newline (trim_start r)"
  shows "(url_scheme base = None \<or> base_serialised e base = None
            \<longrightarrow> fetch e req = Inl RedirectUrlError)
       \<and> (\<forall>scheme b. url_scheme base = Some scheme \<and> base_serialised e base = Some b
            \<longrightarrow> fetch e req
                = Inr \<lparr>status = 302,
                        headers =
                          [(''Location'',
                            b @ ''?code=''
                              @ query_encode (special_scheme scheme) (encodeURIComponent t)
                              @ ''&state=''
                              @ query_encode (special_scheme scheme) (encodeURIComponent s))],
                        body = NoBody\<rparr>
              \<and> query_get
                    (b @ ''?code=''
                       @ query_encode (special_scheme scheme) (encodeURIComponent t)
                       @ ''&state=''
                       @ query_encode (special_scheme scheme) (encodeURIComponent s))
                    ''code''
                  = Some t)
       \<and> percent_decode (query_encode special (encodeURIComponent t)) = t
       \<and> (CHR 0x27 \<notin> set t \<or> \<not> special
            \<longrightarrow> query_encode special (encodeURIComponent t) = encodeURIComponent t)
       \<and> (list_all (\<lambda>x. \<not> c0_or_space x) r \<longrightarrow> base = r)
       \<and> (map_of fd ''state'' = None \<longrightarrow> s = [])"
proof -
  let ?url = "r @ ''?code='' @ encodeURIComponent t @ ''&state='' @ encodeURIComponent s"
  have route: "fetch e req = callback_route e req"
    using assms(1,2) by (simp add: fetch_def)
  have "callback_route e req = Response_redirect e ?url 302"
    using assms(3-7,10) by (simp add: callback_route_def)
  with route have f: "fetch e req
      = (case redirect_location e ?url of
           None \<Rightarrow> Inl RedirectUrlError
         | Some href \<Rightarrow> Inr \<lparr>status = 302, headers = [(''Location'', href)], body = NoBody\<rparr>)"
    by (simp add: Response_redirect_def)
  note loc = redirect_location_callback [OF assms(8,9), of e t s, folded assms(11)]
  have 1: "url_scheme base = None \<or> base_serialised e base = None
            \<longrightarrow> fetch e req = Inl RedirectUrlError"
    unfolding f loc by (auto split: option.splits)
  have 2: "fetch e req
                = Inr \<lparr>status = 302,
                        headers =
                          [(''Location'',
                            b @ ''?code=''
                              @ query_encode (special_scheme scheme) (encodeURIComponent t)
                              @ ''&state=''
                              @ query_encode (special_scheme scheme) (encodeURIComponent s))],
                        body = NoBody\<rparr>"
    if "url_scheme base = Some scheme" and "base_serialised e base = Some b" for scheme b
    unfolding f loc using that by simp
  have 3: "query_get
             (b @ ''?code=''
                @ query_encode sp (encodeURIComponent t)
                @ ''&state=''
                @ query_encode sp (encodeURIComponent s))
             ''code''
           = Some t"
    if "base_serialised e base = Some b" for b sp
    using base_serialised_plain [OF that] query_encode_plain form_decode_query_encode
    by (intro query_get_code_param) auto
  have 4: "percent_decode (query_encode special (encodeURIComponent t)) = t"
    by (rule percent_decode_query_encode)
  have 5: "CHR 0x27 \<notin> set t \<or> \<not> special
            \<longrightarrow> query_encode special (encodeURIComponent t) = encodeURIComponent t"
    using query_encode_unchanged by blast
  have 6: "list_all (\<lambda>x. \<not> c0_or_space x) r \<longrightarrow> base = r"
    unfolding assms(11) using trim_nothing by blast
  have 7: "map_of fd ''state'' = None \<longrightarrow> s = []"
    unfolding assms(10) by (simp add: form_or_empty_def)
  from 1 2 3 4 5 6 7 show ?thesis by blast
qed

text \<open>
  The theorem at \<open>token=abc123&redirect_uri=https://chat.example/cb&state=xyz\<close>.
\<close>

theorem callback_redirect_roundtrip_witness:
  "fetch plain_env
     (blank_request\<lparr>req_method := ''POST'', pathname := ''/callback'',
        formData := Some [(''token'', FString ''abc123''),
                          (''redirect_uri'', FString ''https://chat.example/cb''),
                          (''state'', FString ''xyz'')]\<rparr>)
   = Inr \<lparr>status = 302,
           headers = [(''Location'', ''https://chat.example/cb?code=abc123&state=xyz'')],
           body = NoBody\<rparr>
   \<and> query_get ''https://chat.example/cb?code=abc123&state=xyz'' ''code'' = Some ''abc123''"
proof -
  let ?fd = "[(''token'', FString ''abc123''),
              (''redirect_uri'', FString ''https://chat.example/cb''),
              (''state'', FString ''xyz'')]"
  let ?req = "blank_request\<lparr>req_method := ''POST'', pathname := ''/callback'',
                formData := Some ?fd\<rparr>"
  have sp: "special_scheme ''https''" by (simp add: special_scheme_def)
  have "url_scheme ''https://chat.example/cb'' = Some ''https''
        \<and> base_serialised plain_env ''https://chat.example/cb'' = Some ''https://chat.example/cb''"
    by (simp add: scheme_chat_example base_serialised_def plain_env_def)
  then show ?thesis
    using callback_redirect_roundtrip
      [of ?req ?fd "''abc123''" "''https://chat.example/cb''" "''xyz''"
          "''https://chat.example/cb''" plain_env True,
       THEN conjunct2, THEN conjunct1, rule_format,
       of "''https''" "''https://chat.example/cb''"]
    by (simp add: blank_request_def form_or_empty_def trim_chat_example sp
        query_encode_abc123 query_encode_xyz)
qed

section \<open>The hidden fields of \<open>/authorize\<close>\<close>

text \<open>
  C3, as stated, fails at the empty \<open>redirect_uri\<close>: no login form is returned, the
  answer is 400.
\<close>

theorem authorize_empty_redirect_rejected:
  "fetch plain_env
     (blank_request\<lparr>pathname := ''/authorize'',
        searchParams := [(''redirect_uri'', []), (''state'', ''xyz'')]\<rparr>)
   = Inr \<lparr>status = 400, headers = [], body = Text ''Missing redirect_uri''\<rparr>"
  by code_simp

text \<open>
  C3 (amended): for every non-empty \<open>redirect_uri\<close> and every optional \<open>state\<close>
  supplied to \<open>/authorize\<close> (any method but \<open>OPTIONS\<close>), the handler of
  \<open>src/index.js\<close> returns status 200 with the login form whose two hidden fields hold
  the escaped values; the escaped values contain no double quote, \<open><\<close> or \<open>>\<close>,
  and reading them back as HTML attribute values gives \<open>redirect_uri\<close> exactly and
  \<open>state\<close> exactly (the empty string for an absent \<open>state\<close>).
\<close>

theorem authorize_hidden_fields_roundtrip:
  assumes "req_method req \<noteq> ''OPTIONS''" and "pathname req = ''/authorize''"
    and "map_of (searchParams req) ''redirect_uri'' = Some r" and "r \<noteq> []"
    and "map_of (searchParams req) ''state'' = st"
  shows "fetch e req
         = Inr \<lparr>status = 200,
                 headers = (''Content-Type'', ''text/html'') # corsHeaders,
                 body = AuthPage IndexJs (escapeHtml (Some r)) (escapeHtml st)\<rparr>
       \<and> html_attr_value (escapeHtml (Some r)) = r
       \<and> html_attr_value (escapeHtml st) = or_else st []
       \<and> set (escapeHtml (Some r)) \<inter> {CHR 0x22, CHR ''<'', CHR ''>''} = {}
       \<and> set (escapeHtml st) \<inter> {CHR 0x22, CHR ''<'', CHR ''>''} = {}"
proof -
  have "fetch e req = authorize_route req"
    using assms(1,2) by (simp add: fetch_def)
  then have 1: "fetch e req
         = Inr \<lparr>status = 200,
                 headers = (''Content-Type'', ''text/html'') # corsHeaders,
                 body = AuthPage IndexJs (escapeHtml (Some r)) (escapeHtml st)\<rparr>"
    using assms(3-5) by (simp add: authorize_route_def getAuthPage_def new_Response_def)
  have 2: "html_attr_value (escapeHtml (Some r)) = r"
    by (simp only: escapeHtml_Some attr_roundtrip)
  have 3: "html_attr_value (escapeHtml st) = or_else st []"
  proof (cases st)
    case None
    then show ?thesis by (simp add: escapeHtml_def html_attr_value_def)
  next
    case (Some s)
    have "html_attr_value (escapeHtml (Some s)) = s"
      by (simp only: escapeHtml_Some attr_roundtrip)
    with Some show ?thesis by simp
  qed
  have 4: "set (escapeHtml (Some r)) \<inter> {CHR 0x22, CHR ''<'', CHR ''>''} = {}"
    by (simp only: escapeHtml_Some escaped_safe)
  have 5: "set (escapeHtml st) \<inter> {CHR 0x22, CHR ''<'', CHR ''>''} = {}"
  proof (cases st)
    case None
    then show ?thesis by (simp add: escapeHtml_def)
  next
    case (Some s)
    then show ?thesis by (simp only: escapeHtml_Some escaped_safe)
  qed
  from 1 2 3 4 5 show ?thesis by blast
qed

text \<open>The theorem at a \<open>redirect_uri\<close> that tries to close the attribute.\<close>

theorem authorize_hidden_fields_roundtrip_witness:
  "fetch plain_env
     (blank_request\<lparr>pathname := ''/authorize'',
        searchParams := [(''redirect_uri'', ''x'' @ [CHR 0x22] @ ''><b>&y''), (''state'', ''xyz'')]\<rparr>)
   = Inr \<lparr>status = 200,
           headers = (''Content-Type'', ''text/html'') # corsHeaders,
           body = AuthPage IndexJs ''x&quot;&gt;&lt;b&gt;&amp;y'' ''xyz''\<rparr>
   \<and> html_attr_value ''x&quot;&gt;&lt;b&gt;&amp;y'' = ''x'' @ [CHR 0x22] @ ''><b>&y''"
proof -
  have st: "escapeHtml (Some ''xyz'') = ''xyz''" by code_simp
  show ?thesis
    using authorize_hidden_fields_roundtrip
      [of "blank_request\<lparr>pathname := ''/authorize'',
            searchParams := [(''redirect_uri'', ''x'' @ [CHR 0x22] @ ''><b>&y''), (''state'', ''xyz'')]\<rparr>"
          "''x'' @ [CHR 0x22] @ ''><b>&y''" "Some ''xyz''" plain_env]
    by (simp add: blank_request_def escape_example [simplified] st)
qed

section \<open>Required inputs\<close>

text \<open>
  C4: a \<open>POST /token\<close> with no code value is to be answered 400 "Missing code". At the
  JSON body \<open>null\<close> (content type \<open>application/json\<close>) the handler does not get
  there: \<open>json.code\<close> throws on \<open>null\<close> and nothing catches it.
\<close>

theorem token_json_null_throws:
  "fetch plain_env
     (blank_request\<lparr>req_method := ''POST'', pathname := ''/token'',
        req_headers := [''Content-Type'' \<mapsto> ''application/json''],
        json := Some JNull\<rparr>)
   = Inl NullPropertyError"
  by code_simp

section \<open>The pass-through to Canvas\<close>

text \<open>
  C5, as stated, fails in several places. An \<open>OPTIONS\<close> request under \<open>/api/v1/\<close>
  without \<open>Authorization\<close> gets the preflight answer, not 401. An
  \<open>Authorization\<close> header that is present but empty is answered 401 and nothing is
  forwarded. An upstream answer without a content type is relayed with
  \<open>Content-Type: application/json\<close>. The body goes through \<open>text()\<close>, so an
  upstream body that is not UTF-8 comes back with U+FFFD in place of the bad byte, and a
  leading byte-order mark is dropped. An upstream status outside 200..599 makes the
  \<open>Response\<close> constructor throw.
\<close>

theorem proxy_not_transparent:
  "fetch plain_env (blank_request\<lparr>req_method := ''OPTIONS'', pathname := ''/api/v1/courses''\<rparr>)
   = Inr \<lparr>status = 200, headers = corsHeaders, body = NoBody\<rparr>
   \<and> fetch plain_env
     (blank_request\<lparr>pathname := ''/api/v1/courses'',
        req_headers := [''Authorization'' \<mapsto> []]\<rparr>)
   = Inr \<lparr>status = 401,
           headers = (''Content-Type'', ''application/json'') # corsHeaders,
           body = Json (JObj [(''error'', JStr ''Missing Authorization header'')])\<rparr>
   \<and> fetch (answering_env \<lparr>up_status = 200, up_content_type = None, up_bytes = ''ok''\<rparr>)
     (blank_request\<lparr>pathname := ''/api/v1/courses'',
        req_headers := [''Authorization'' \<mapsto> ''Bearer abc'']\<rparr>)
   = Inr \<lparr>status = 200,
           headers = (''Content-Type'', ''application/json'') # corsHeaders,
           body = Text ''ok''\<rparr>
   \<and> fetch (answering_env
              \<lparr>up_status = 200, up_content_type = Some ''application/octet-stream'',
                 up_bytes = [CHR 0xFF]\<rparr>)
     (blank_request\<lparr>pathname := ''/api/v1/files/1'',
        req_headers := [''Authorization'' \<mapsto> ''Bearer abc'']\<rparr>)
   = Inr \<lparr>status = 200,
           headers = (''Content-Type'', ''application/octet-stream'') # corsHeaders,
           body = Text [CHR 0xEF, CHR 0xBF, CHR 0xBD]\<rparr>
   \<and> fetch (answering_env
              \<lparr>up_status = 200, up_content_type = Some ''text/csv'',
                 up_bytes = [CHR 0xEF, CHR 0xBB, CHR 0xBF, CHR ''a'']\<rparr>)
     (blank_request\<lparr>pathname := ''/api/v1/files/2'',
        req_headers := [''Authorization'' \<mapsto> ''Bearer abc'']\<rparr>)
   = Inr \<lparr>status = 200,
           headers = (''Content-Type'', ''text/csv'') # corsHeaders,
           body = Text ''a''\<rparr>
   \<and> fetch (answering_env \<lparr>up_status = 999, up_content_type = None, up_bytes = []\<rparr>)
     (blank_request\<lparr>pathname := ''/api/v1/courses'',
        req_headers := [''Authorization'' \<mapsto> ''Bearer abc'']\<rparr>)
   = Inl ResponseStatusError"
  by code_simp

text \<open>
  C5 (amended): for every request other than \<open>OPTIONS\<close> whose path begins with
  \<open>/api/v1/\<close>: if the \<open>Authorization\<close> header is absent or empty the response is
  401 with a JSON error body; otherwise one request goes to
  \<open>https://grambling.instructure.com\<close> with the same method, path and query string,
  with exactly two headers (\<open>Authorization\<close> as received, \<open>Content-Type\<close> as
  received or \<open>application/json\<close> when absent or empty) and with the request body as
  \<open>text()\<close> reads it (no body for \<open>GET\<close> and \<open>HEAD\<close>); a failing upstream call
  makes the handler throw; an upstream answer with a status in 200..599 is relayed with
  that status, its body as \<open>text()\<close> reads it, its content type
  (\<open>application/json\<close> when absent or empty) and the CORS headers, and any other
  status makes the handler throw. \<open>text()\<close> leaves every body unchanged that is
  well-formed UTF-8 without a leading byte-order mark.
\<close>

theorem proxy_pass_through:
  assumes "req_method req \<noteq> ''OPTIONS''" and "startsWith (pathname req) ''/api/v1/''"
  shows "(req_headers req ''Authorization'' = None \<or> req_headers req ''Authorization'' = Some []
            \<longrightarrow> fetch e req
                = Inr \<lparr>status = 401,
                        headers = (''Content-Type'', ''application/json'') # corsHeaders,
                        body = Json (JObj [(''error'', JStr ''Missing Authorization header'')])\<rparr>)
       \<and> (\<forall>a. req_headers req ''Authorization'' = Some a \<and> a \<noteq> []
            \<longrightarrow> up_url (canvas_request req a)
                  = ''https://grambling.instructure.com'' @ pathname req @ search req
              \<and> up_method (canvas_request req a) = req_method req
              \<and> up_headers (canvas_request req a)
                  = [(''Authorization'', a),
                     (''Content-Type'', or_else (req_headers req ''Content-Type'') ''application/json'')]
              \<and> up_body (canvas_request req a)
                  = (if req_method req = ''GET'' \<or> req_method req = ''HEAD'' then None
                     else Some (utf8_text (body_bytes req)))
              \<and> (global_fetch e (canvas_request req a) = None
                    \<longrightarrow> fetch e req = Inl UpstreamFetchError)
              \<and> (\<forall>cr. global_fetch e (canvas_request req a) = Some cr
                    \<longrightarrow> fetch e req
                        = (if up_status cr < 200 \<or> 599 < up_status cr
                           then Inl ResponseStatusError
                           else Inr \<lparr>status = up_status cr,
                                     headers = (''Content-Type'',
                                                or_else (up_content_type cr) ''application/json'')
                                               # corsHeaders,
                                     body = Text (response_text cr)\<rparr>)
                      \<and> response_text cr
                          = (if up_status cr = 101 \<or> up_status cr = 204 \<or> up_status cr = 205
                                \<or> up_status cr = 304
                             then [] else utf8_text (up_bytes cr))))
       \<and> (utf8_well_formed bytes \<and> \<not> startsWith bytes [CHR 0xEF, CHR 0xBB, CHR 0xBF]
            \<longrightarrow> utf8_text bytes = bytes)"
proof -
  have route: "fetch e req = proxy_route e req"
    using assms by (rule fetch_proxy)
  have 1: "req_headers req ''Authorization'' = None \<or> req_headers req ''Authorization'' = Some []
            \<longrightarrow> fetch e req
                = Inr \<lparr>status = 401,
                        headers = (''Content-Type'', ''application/json'') # corsHeaders,
                        body = Json (JObj [(''error'', JStr ''Missing Authorization header'')])\<rparr>"
    unfolding route by (auto simp: proxy_route_def new_Response_def)
  have 2: "up_url (canvas_request req a)
                  = ''https://grambling.instructure.com'' @ pathname req @ search req
              \<and> up_method (canvas_request req a) = req_method req
              \<and> up_headers (canvas_request req a)
                  = [(''Authorization'', a),
                     (''Content-Type'', or_else (req_headers req ''Content-Type'') ''application/json'')]
              \<and> up_body (canvas_request req a)
                  = (if req_method req = ''GET'' \<or> req_method req = ''HEAD'' then None
                     else Some (utf8_text (body_bytes req)))" for a
    by (simp add: canvas_request_def CANVAS_DOMAIN_def)
  have 3: "global_fetch e (canvas_request req a) = None \<longrightarrow> fetch e req = Inl UpstreamFetchError"
    if "req_headers req ''Authorization'' = Some a" and "a \<noteq> []" for a
    unfolding route using that by (simp add: proxy_route_def)
  have 4: "fetch e req
           = (if up_status cr < 200 \<or> 599 < up_status cr
              then Inl ResponseStatusError
              else Inr \<lparr>status = up_status cr,
                        headers = (''Content-Type'',
                                   or_else (up_content_type cr) ''application/json'')
                                  # corsHeaders,
                        body = Text (response_text cr)\<rparr>)"
    if "req_headers req ''Authorization'' = Some a" and "a \<noteq> []"
      and "global_fetch e (canvas_request req a) = Some cr"
    for a cr
    unfolding route using that
    by (auto simp: proxy_route_def new_Response_def response_text_def)
  have 5: "response_text cr
           = (if up_status cr = 101 \<or> up_status cr = 204 \<or> up_status cr = 205
                 \<or> up_status cr = 304
              then [] else utf8_text (up_bytes cr))" for cr
    by (simp add: response_text_def)
  have 6: "utf8_well_formed bytes \<and> \<not> startsWith bytes [CHR 0xEF, CHR 0xBB, CHR 0xBF]
            \<longrightarrow> utf8_text bytes = bytes"
    using utf8_text_well_formed by blast
  from 1 2 3 4 5 6 show ?thesis by blast
qed

text \<open>
  The theorem at a \<open>PUT\<close> that the upstream answers with 404 and at a \<open>DELETE\<close>
  that it answers with 204.
\<close>

theorem proxy_pass_through_witness:
  "fetch (answering_env \<lparr>up_status = 404, up_content_type = Some ''text/plain'', up_bytes = ''no such course''\<rparr>)
     (blank_request\<lparr>req_method := ''PUT'', pathname := ''/api/v1/courses/7'', search := ''?x=1'',
        req_headers := [''Authorization'' \<mapsto> ''Bearer abc''], body_bytes := ''name=n''\<rparr>)
   = Inr \<lparr>status = 404,
           headers = (''Content-Type'', ''text/plain'') # corsHeaders,
           body = Text ''no such course''\<rparr>
   \<and> canvas_request
       (blank_request\<lparr>req_method := ''PUT'', pathname := ''/api/v1/courses/7'', search := ''?x=1'',
          req_headers := [''Authorization'' \<mapsto> ''Bearer abc''], body_bytes := ''name=n''\<rparr>)
       ''Bearer abc''
     = \<lparr>up_url = ''https://grambling.instructure.com/api/v1/courses/7?x=1'',
        up_method = ''PUT'',
        up_headers = [(''Authorization'', ''Bearer abc''), (''Content-Type'', ''application/json'')],
        up_body = Some ''name=n''\<rparr>
   \<and> fetch (answering_env \<lparr>up_status = 204, up_content_type = None, up_bytes = []\<rparr>)
     (blank_request\<lparr>req_method := ''DELETE'', pathname := ''/api/v1/courses/7'',
        req_headers := [''Authorization'' \<mapsto> ''Bearer abc'']\<rparr>)
   = Inr \<lparr>status = 204,
           headers = (''Content-Type'', ''application/json'') # corsHeaders,
           body = Text []\<rparr>"
proof -
  let ?req = "blank_request\<lparr>req_method := ''PUT'', pathname := ''/api/v1/courses/7'', search := ''?x=1'',
        req_headers := [''Authorization'' \<mapsto> ''Bearer abc''], body_bytes := ''name=n''\<rparr>"
  let ?e = "answering_env \<lparr>up_status = 404, up_content_type = Some ''text/plain'', up_bytes = ''no such course''\<rparr>"
  let ?del = "blank_request\<lparr>req_method := ''DELETE'', pathname := ''/api/v1/courses/7'',
        req_headers := [''Authorization'' \<mapsto> ''Bearer abc'']\<rparr>"
  let ?e204 = "answering_env \<lparr>up_status = 204, up_content_type = None, up_bytes = []\<rparr>"
  have m: "req_method ?req \<noteq> ''OPTIONS''" by (simp add: blank_request_def)
  have p: "startsWith (pathname ?req) ''/api/v1/''" by (simp add: blank_request_def startsWith_def)
  have m2: "req_method ?del \<noteq> ''OPTIONS''" by (simp add: blank_request_def)
  have p2: "startsWith (pathname ?del) ''/api/v1/''" by (simp add: blank_request_def startsWith_def)
  have c: "canvas_request ?req ''Bearer abc''
     = \<lparr>up_url = ''https://grambling.instructure.com/api/v1/courses/7?x=1'',
        up_method = ''PUT'',
        up_headers = [(''Authorization'', ''Bearer abc''), (''Content-Type'', ''application/json'')],
        up_body = Some ''name=n''\<rparr>"
    by (simp add: canvas_request_def CANVAS_DOMAIN_def blank_request_def text_name_n)
  have a: "fetch ?e ?req
   = Inr \<lparr>status = 404,
           headers = (''Content-Type'', ''text/plain'') # corsHeaders,
           body = Text ''no such course''\<rparr>"
    using proxy_pass_through [OF m p, of ?e "[]", THEN conjunct2, THEN conjunct1, rule_format,
        of "''Bearer abc''"]
    by (simp add: answering_env_def blank_request_def text_no_such_course)
  have b: "fetch ?e204 ?del
   = Inr \<lparr>status = 204,
           headers = (''Content-Type'', ''application/json'') # corsHeaders,
           body = Text []\<rparr>"
    using proxy_pass_through [OF m2 p2, of ?e204 "[]", THEN conjunct2, THEN conjunct1, rule_format,
        of "''Bearer abc''"]
    by (simp add: answering_env_def blank_request_def)
  from a b c show ?thesis by blast
qed

section \<open>CORS headers\<close>

text \<open>
  C6, as stated, fails on both of its examples: the plain-text 404 carries the three CORS
  headers, and the 302 redirect of \<open>/callback\<close> carries none of them.
\<close>

theorem cors_on_404_not_on_redirect:
  "fetch plain_env (blank_request\<lparr>pathname := ''/nowhere''\<rparr>)
   = Inr \<lparr>status = 404, headers = corsHeaders, body = Text ''Not found''\<rparr>
   \<and> carries_cors \<lparr>status = 404, headers = corsHeaders, body = Text ''Not found''\<rparr>
   \<and> fetch plain_env
     (blank_request\<lparr>req_method := ''POST'', pathname := ''/callback'',
        formData := Some [(''token'', FString ''abc123''),
                          (''redirect_uri'', FString ''https://chat.example/cb''),
                          (''state'', FString ''xyz'')]\<rparr>)
   = Inr \<lparr>status = 302,
           headers = [(''Location'', ''https://chat.example/cb?code=abc123&state=xyz'')],
           body = NoBody\<rparr>
   \<and> \<not> carries_cors
         \<lparr>status = 302,
          headers = [(''Location'', ''https://chat.example/cb?code=abc123&state=xyz'')],
          body = NoBody\<rparr>"
proof -
  have 1: "fetch plain_env (blank_request\<lparr>pathname := ''/nowhere''\<rparr>)
     = Inr \<lparr>status = 404, headers = corsHeaders, body = Text ''Not found''\<rparr>"
    by (simp add: fetch_def blank_request_def new_Response_def startsWith_def)
  have 2: "carries_cors \<lparr>status = 404, headers = corsHeaders, body = Text ''Not found''\<rparr>"
    by (simp add: carries_cors_def)
  have 3: "fetch plain_env
     (blank_request\<lparr>req_method := ''POST'', pathname := ''/callback'',
        formData := Some [(''token'', FString ''abc123''),
                          (''redirect_uri'', FString ''https://chat.example/cb''),
                          (''state'', FString ''xyz'')]\<rparr>)
   = Inr \<lparr>status = 302,
           headers = [(''Location'', ''https://chat.example/cb?code=abc123&state=xyz'')],
           body = NoBody\<rparr>"
    by code_simp
  have 4: "\<not> carries_cors
         \<lparr>status = 302,
          headers = [(''Location'', ''https://chat.example/cb?code=abc123&state=xyz'')],
          body = NoBody\<rparr>"
    by (rule without_cors) simp
  from 1 2 3 4 show ?thesis by blast
qed

text \<open>
  C6 (amended): an \<open>OPTIONS\<close> request on any path is answered with status 200, no
  body and exactly the three CORS headers; a request that no route matches is answered
  with the plain-text 404, which carries them; and every response the dispatcher returns
  carries the three CORS headers, except the two plain-text 400 answers and the 302
  redirect of \<open>/callback\<close>: in particular no answer of \<open>POST /callback\<close> carries
  them and every 404 does.
\<close>

theorem cors_headers_on_responses:
  "(req_method req = ''OPTIONS''
      \<longrightarrow> fetch e req = Inr \<lparr>status = 200, headers = corsHeaders, body = NoBody\<rparr>)
   \<and> (req_method req \<noteq> ''OPTIONS'' \<and> pathname req \<noteq> ''/'' \<and> pathname req \<noteq> []
      \<and> pathname req \<noteq> ''/authorize''
      \<and> \<not> (pathname req = ''/callback'' \<and> req_method req = ''POST'')
      \<and> \<not> (pathname req = ''/token'' \<and> req_method req = ''POST'')
      \<and> \<not> startsWith (pathname req) ''/api/v1/''
      \<longrightarrow> fetch e req = Inr \<lparr>status = 404, headers = corsHeaders, body = Text ''Not found''\<rparr>)
   \<and> carries_cors \<lparr>status = 200, headers = corsHeaders, body = NoBody\<rparr>
   \<and> carries_cors \<lparr>status = 404, headers = corsHeaders, body = Text ''Not found''\<rparr>
   \<and> (\<forall>resp. fetch e req = Inr resp
      \<longrightarrow> (carries_cors resp \<longleftrightarrow> \<not> (plain_400 resp \<or> bare_redirect resp))
        \<and> (req_method req = ''POST'' \<and> pathname req = ''/callback'' \<longrightarrow> \<not> carries_cors resp)
        \<and> (status resp = 404 \<longrightarrow> carries_cors resp))"
proof -
  have opt: "req_method req = ''OPTIONS''
      \<longrightarrow> fetch e req = Inr \<lparr>status = 200, headers = corsHeaders, body = NoBody\<rparr>"
    by (simp add: fetch_def new_Response_def)
  have nf: "req_method req \<noteq> ''OPTIONS'' \<and> pathname req \<noteq> ''/'' \<and> pathname req \<noteq> []
      \<and> pathname req \<noteq> ''/authorize''
      \<and> \<not> (pathname req = ''/callback'' \<and> req_method req = ''POST'')
      \<and> \<not> (pathname req = ''/token'' \<and> req_method req = ''POST'')
      \<and> \<not> startsWith (pathname req) ''/api/v1/''
      \<longrightarrow> fetch e req = Inr \<lparr>status = 404, headers = corsHeaders, body = Text ''Not found''\<rparr>"
    by (auto simp: fetch_def new_Response_def)
  have c200: "carries_cors \<lparr>status = 200, headers = corsHeaders, body = NoBody\<rparr>"
    by (simp add: carries_cors_def)
  have c404: "carries_cors \<lparr>status = 404, headers = corsHeaders, body = Text ''Not found''\<rparr>"
    by (simp add: carries_cors_def)
  have main: "carries_cors resp \<longleftrightarrow> \<not> (plain_400 resp \<or> bare_redirect resp)"
    if r: "fetch e req = Inr resp" for resp
  proof -
    from fetch_kind [OF r]
    consider (cors) "headers resp = corsHeaders \<or> (\<exists>h. headers resp = h # corsHeaders)"
      | (plain) "plain_400 resp"
      | (redirect) h where "resp = \<lparr>status = 302, headers = [(''Location'', h)], body = NoBody\<rparr>"
      unfolding plain_400_def by blast
    then show ?thesis
    proof cases
      case cors
      from with_cors_kind [OF this] show ?thesis by blast
    next
      case plain
      then have "headers resp = []" by (auto simp: plain_400_def)
      with without_cors [of resp] plain show ?thesis by blast
    next
      case redirect
      then have "bare_redirect resp" by (simp add: bare_redirect_def)
      moreover have "\<not> carries_cors resp" using redirect without_cors [of resp] by auto
      ultimately show ?thesis by blast
    qed
  qed
  have cb: "\<not> carries_cors resp"
    if r: "fetch e req = Inr resp" and a: "req_method req = ''POST'' \<and> pathname req = ''/callback''"
    for resp
  proof -
    from a have "fetch e req = callback_route e req" by (simp add: fetch_def)
    with r callback_route_kind [of e req resp] without_cors [of resp]
    show ?thesis by auto
  qed
  have s404: "carries_cors resp" if r: "fetch e req = Inr resp" and "status resp = 404" for resp
    using main [OF r] that(2) by (auto simp: plain_400_def bare_redirect_def)
  from opt nf c200 c404 main cb s404 show ?thesis by blast
qed

text \<open>
  The theorem at an \<open>OPTIONS\<close> request, at a path that no route matches and at an
  upstream answer with status 204.
\<close>

theorem cors_headers_on_responses_witness:
  "fetch plain_env (blank_request\<lparr>req_method := ''OPTIONS'', pathname := ''/anything''\<rparr>)
   = Inr \<lparr>status = 200, headers = corsHeaders, body = NoBody\<rparr>
   \<and> fetch plain_env (blank_request\<lparr>pathname := ''/nowhere''\<rparr>)
     = Inr \<lparr>status = 404, headers = corsHeaders, body = Text ''Not found''\<rparr>
   \<and> carries_cors \<lparr>status = 404, headers = corsHeaders, body = Text ''Not found''\<rparr>
   \<and> carries_cors
       \<lparr>status = 204,
        headers = (''Content-Type'', ''application/json'') # corsHeaders,
        body = Text []\<rparr>"
proof -
  let ?opt = "blank_request\<lparr>req_method := ''OPTIONS'', pathname := ''/anything''\<rparr>"
  let ?nw = "blank_request\<lparr>pathname := ''/nowhere''\<rparr>"
  let ?del = "blank_request\<lparr>req_method := ''DELETE'', pathname := ''/api/v1/courses/7'',
        req_headers := [''Authorization'' \<mapsto> ''Bearer abc'']\<rparr>"
  let ?e204 = "answering_env \<lparr>up_status = 204, up_content_type = None, up_bytes = []\<rparr>"
  have 1: "fetch plain_env ?opt = Inr \<lparr>status = 200, headers = corsHeaders, body = NoBody\<rparr>"
    using cors_headers_on_responses [of ?opt plain_env, THEN conjunct1]
    by (simp add: blank_request_def)
  have 2: "fetch plain_env ?nw
             = Inr \<lparr>status = 404, headers = corsHeaders, body = Text ''Not found''\<rparr>"
    using cors_headers_on_responses [of ?nw plain_env, THEN conjunct2, THEN conjunct1]
    by (simp add: blank_request_def startsWith_def)
  have 3: "carries_cors \<lparr>status = 404, headers = corsHeaders, body = Text ''Not found''\<rparr>"
    using cors_headers_on_responses [of ?nw plain_env, THEN conjunct2, THEN conjunct2,
        THEN conjunct2, THEN conjunct2, rule_format, OF 2, THEN conjunct2, THEN conjunct2]
    by simp
  have r: "fetch ?e204 ?del
           = Inr \<lparr>status = 204,
                   headers = (''Content-Type'', ''application/json'') # corsHeaders,
                   body = Text []\<rparr>"
    by (simp add: fetch_def proxy_route_def canvas_request_def response_text_def
        new_Response_def answering_env_def blank_request_def startsWith_def)
  have 4: "carries_cors
       \<lparr>status = 204,
        headers = (''Content-Type'', ''application/json'') # corsHeaders,
        body = Text []\<rparr>"
    using cors_headers_on_responses [of ?del ?e204, THEN conjunct2, THEN conjunct2,
        THEN conjunct2, THEN conjunct2, rule_format, OF r, THEN conjunct1]
    by (simp add: plain_400_def bare_redirect_def)
  from 1 2 3 4 show ?thesis by blast
qed

section \<open>Unmatched routes\<close>

text \<open>
  C7, as stated, fails on its own example: a \<open>POST\<close> to \<open>/\<close> is answered with the
  home page and a \<open>DELETE\<close> to \<open>/authorize\<close> with the login form, not with 404.
\<close>

theorem post_home_not_404:
  "fetch plain_env (blank_request\<lparr>req_method := ''POST''\<rparr>)
   = Inr \<lparr>status = 200,
           headers = (''Content-Type'', ''text/html'') # corsHeaders,
           body = HomePage IndexJs\<rparr>
   \<and> fetch plain_env
       (blank_request\<lparr>req_method := ''DELETE'', pathname := ''/authorize'',
          searchParams := [(''redirect_uri'', ''https://chat.example/cb'')]\<rparr>)
   = Inr \<lparr>status = 200,
           headers = (''Content-Type'', ''text/html'') # corsHeaders,
           body = AuthPage IndexJs ''https://chat.example/cb'' []\<rparr>"
  by code_simp

text \<open>
  C7 (amended): a request other than \<open>OPTIONS\<close> whose path is not \<open>/\<close>, empty or
  \<open>/authorize\<close>, that is not \<open>POST /callback\<close> or \<open>POST /token\<close>, and whose
  path does not begin with \<open>/api/v1/\<close>, is answered 404 with the plain-text body
  "Not found"; \<open>/\<close> and \<open>/authorize\<close> answer every method other than
  \<open>OPTIONS\<close> (the home page, and the login form or 400), never 404.
\<close>

theorem unmatched_route_404:
  assumes "req_method req \<noteq> ''OPTIONS''"
  shows "(pathname req \<noteq> ''/'' \<and> pathname req \<noteq> [] \<and> pathname req \<noteq> ''/authorize''
          \<and> \<not> (pathname req = ''/callback'' \<and> req_method req = ''POST'')
          \<and> \<not> (pathname req = ''/token'' \<and> req_method req = ''POST'')
          \<and> \<not> startsWith (pathname req) ''/api/v1/''
          \<longrightarrow> fetch e req = Inr \<lparr>status = 404, headers = corsHeaders, body = Text ''Not found''\<rparr>)
       \<and> (pathname req = ''/'' \<or> pathname req = []
          \<longrightarrow> fetch e req
              = Inr \<lparr>status = 200,
                      headers = (''Content-Type'', ''text/html'') # corsHeaders,
                      body = HomePage IndexJs\<rparr>)
       \<and> (pathname req = ''/authorize''
          \<longrightarrow> fetch e req = authorize_route req
              \<and> (\<forall>resp. fetch e req = Inr resp \<longrightarrow> status resp = 200 \<or> status resp = 400))"
proof -
  have 1: "pathname req \<noteq> ''/'' \<and> pathname req \<noteq> [] \<and> pathname req \<noteq> ''/authorize''
          \<and> \<not> (pathname req = ''/callback'' \<and> req_method req = ''POST'')
          \<and> \<not> (pathname req = ''/token'' \<and> req_method req = ''POST'')
          \<and> \<not> startsWith (pathname req) ''/api/v1/''
          \<longrightarrow> fetch e req = Inr \<lparr>status = 404, headers = corsHeaders, body = Text ''Not found''\<rparr>"
    using assms by (simp add: fetch_def new_Response_def)
  have 2: "pathname req = ''/'' \<or> pathname req = []
          \<longrightarrow> fetch e req
              = Inr \<lparr>status = 200,
                      headers = (''Content-Type'', ''text/html'') # corsHeaders,
                      body = HomePage IndexJs\<rparr>"
    using assms by (simp add: fetch_def new_Response_def getHomePage_def)
  have 3: "pathname req = ''/authorize''
          \<longrightarrow> fetch e req = authorize_route req
              \<and> (\<forall>resp. fetch e req = Inr resp \<longrightarrow> status resp = 200 \<or> status resp = 400)"
  proof
    assume p: "pathname req = ''/authorize''"
    with assms have r: "fetch e req = authorize_route req" by (simp add: fetch_def)
    have "status resp = 200 \<or> status resp = 400" if "authorize_route req = Inr resp" for resp
      using that by (auto simp: authorize_route_def Let_def new_Response_def split: if_splits)
    with r show "fetch e req = authorize_route req
              \<and> (\<forall>resp. fetch e req = Inr resp \<longrightarrow> status resp = 200 \<or> status resp = 400)"
      by simp
  qed
  from 1 2 3 show ?thesis by blast
qed

text \<open>The theorem at \<open>POST /authorise\<close>.\<close>

theorem unmatched_route_404_witness:
  "fetch plain_env (blank_request\<lparr>req_method := ''POST'', pathname := ''/authorise''\<rparr>)
   = Inr \<lparr>status = 404, headers = corsHeaders, body = Text ''Not found''\<rparr>"
proof -
  have m: "req_method (blank_request\<lparr>req_method := ''POST'', pathname := ''/authorise''\<rparr>) \<noteq> ''OPTIONS''"
    by (simp add: blank_request_def)
  show ?thesis
    using unmatched_route_404 [OF m, of plain_env, THEN conjunct1]
    by (simp add: blank_request_def startsWith_def)
qed

section \<open>Empty values\<close>

text \<open>
  C8: a required value equal to the empty string gets the answer of an absent one:
  \<open>/authorize\<close> with an empty or absent \<open>redirect_uri\<close> is answered 400;
  \<open>POST /callback\<close> with an empty or absent \<open>token\<close> or \<open>redirect_uri\<close> is
  answered 400; \<open>POST /token\<close> with an empty or absent \<open>code\<close> (in a form body or
  in a JSON object) is answered 400 \<open>{"error":"Missing code"}\<close>.
\<close>

theorem empty_value_treated_as_absent:
  "(req_method req \<noteq> ''OPTIONS'' \<and> pathname req = ''/authorize''
      \<and> (map_of (searchParams req) ''redirect_uri'' = None
          \<or> map_of (searchParams req) ''redirect_uri'' = Some [])
    \<longrightarrow> fetch e req = Inr \<lparr>status = 400, headers = [], body = Text ''Missing redirect_uri''\<rparr>)
   \<and> (req_method req = ''POST'' \<and> pathname req = ''/callback'' \<and> formData req = Some fd
      \<and> (map_of fd ''token'' = None \<or> map_of fd ''token'' = Some (FString [])
          \<or> map_of fd ''redirect_uri'' = None \<or> map_of fd ''redirect_uri'' = Some (FString []))
    \<longrightarrow> fetch e req
        = Inr \<lparr>status = 400, headers = [], body = Text ''Missing token or redirect_uri''\<rparr>)
   \<and> (req_method req = ''POST'' \<and> pathname req = ''/token''
      \<and> ((str_includes (or_else (req_headers req ''Content-Type'') [])
             ''application/x-www-form-urlencoded''
           \<or> \<not> str_includes (or_else (req_headers req ''Content-Type'') [])
                 ''application/json'')
          \<and> formData req = Some fd
          \<and> (map_of fd ''code'' = None \<or> map_of fd ''code'' = Some (FString []))
        \<or> \<not> str_includes (or_else (req_headers req ''Content-Type'') [])
                 ''application/x-www-form-urlencoded''
          \<and> str_includes (or_else (req_headers req ''Content-Type'') []) ''application/json''
          \<and> json req = Some (JObj kvs)
          \<and> (map_of kvs ''code'' = None \<or> map_of kvs ''code'' = Some (JStr [])))
    \<longrightarrow> fetch e req
        = Inr \<lparr>status = 400,
                headers = (''Content-Type'', ''application/json'') # corsHeaders,
                body = Json (JObj [(''error'', JStr ''Missing code'')])\<rparr>)"
proof -
  have 1: "req_method req \<noteq> ''OPTIONS'' \<and> pathname req = ''/authorize''
      \<and> (map_of (searchParams req) ''redirect_uri'' = None
          \<or> map_of (searchParams req) ''redirect_uri'' = Some [])
    \<longrightarrow> fetch e req = Inr \<lparr>status = 400, headers = [], body = Text ''Missing redirect_uri''\<rparr>"
    by (auto simp: fetch_def authorize_route_def new_Response_def)
  have 2: "req_method req = ''POST'' \<and> pathname req = ''/callback'' \<and> formData req = Some fd
      \<and> (map_of fd ''token'' = None \<or> map_of fd ''token'' = Some (FString [])
          \<or> map_of fd ''redirect_uri'' = None \<or> map_of fd ''redirect_uri'' = Some (FString []))
    \<longrightarrow> fetch e req
        = Inr \<lparr>status = 400, headers = [], body = Text ''Missing token or redirect_uri''\<rparr>"
    by (auto simp: fetch_def callback_route_def new_Response_def split: option.splits)
  have 3: "fetch e req
        = Inr \<lparr>status = 400,
                headers = (''Content-Type'', ''application/json'') # corsHeaders,
                body = Json (JObj [(''error'', JStr ''Missing code'')])\<rparr>"
    if r: "req_method req = ''POST''" "pathname req = ''/token''"
      and c: "(str_includes (or_else (req_headers req ''Content-Type'') [])
             ''application/x-www-form-urlencoded''
           \<or> \<not> str_includes (or_else (req_headers req ''Content-Type'') [])
                 ''application/json'')
          \<and> formData req = Some fd
          \<and> (map_of fd ''code'' = None \<or> map_of fd ''code'' = Some (FString []))
        \<or> \<not> str_includes (or_else (req_headers req ''Content-Type'') [])
                 ''application/x-www-form-urlencoded''
          \<and> str_includes (or_else (req_headers req ''Content-Type'') []) ''application/json''
          \<and> json req = Some (JObj kvs)
          \<and> (map_of kvs ''code'' = None \<or> map_of kvs ''code'' = Some (JStr []))"
  proof -
    have route: "fetch e req = token_route req" using r by (simp add: fetch_def)
    from c show ?thesis unfolding route
      by (auto simp: token_route_def Let_def token_reply_falsy)
  qed
  from 1 2 3 show ?thesis by blast
qed

text \<open>The theorem at an empty value on each of the three routes.\<close>

theorem empty_value_treated_as_absent_witness:
  "fetch plain_env
     (blank_request\<lparr>pathname := ''/authorize'', searchParams := [(''redirect_uri'', [])]\<rparr>)
   = Inr \<lparr>status = 400, headers = [], body = Text ''Missing redirect_uri''\<rparr>
   \<and> fetch plain_env
     (blank_request\<lparr>pathname := ''/authorize'', searchParams := []\<rparr>)
   = Inr \<lparr>status = 400, headers = [], body = Text ''Missing redirect_uri''\<rparr>
   \<and> fetch plain_env
     (blank_request\<lparr>req_method := ''POST'', pathname := ''/callback'',
        formData := Some [(''token'', FString []), (''redirect_uri'', FString ''https://chat.example/cb'')]\<rparr>)
   = Inr \<lparr>status = 400, headers = [], body = Text ''Missing token or redirect_uri''\<rparr>
   \<and> fetch plain_env
     (blank_request\<lparr>req_method := ''POST'', pathname := ''/callback'',
        formData := Some [(''token'', FString ''abc''), (''redirect_uri'', FString [])]\<rparr>)
   = Inr \<lparr>status = 400, headers = [], body = Text ''Missing token or redirect_uri''\<rparr>
   \<and> fetch plain_env
     (blank_request\<lparr>req_method := ''POST'', pathname := ''/token'',
        req_headers := [''Content-Type'' \<mapsto> ''application/x-www-form-urlencoded''],
        formData := Some [(''code'', FString [])]\<rparr>)
   = Inr \<lparr>status = 400,
           headers = (''Content-Type'', ''application/json'') # corsHeaders,
           body = Json (JObj [(''error'', JStr ''Missing code'')])\<rparr>
   \<and> fetch plain_env
     (blank_request\<lparr>req_method := ''POST'', pathname := ''/token'',
        req_headers := [''Content-Type'' \<mapsto> ''application/json''],
        json := Some (JObj [(''code'', JStr [])])\<rparr>)
   = Inr \<lparr>status = 400,
           headers = (''Content-Type'', ''application/json'') # corsHeaders,
           body = Json (JObj [(''error'', JStr ''Missing code'')])\<rparr>"
proof -
  note a = empty_value_treated_as_absent [THEN conjunct1]
  note b = empty_value_treated_as_absent [THEN conjunct2, THEN conjunct1]
  note c = empty_value_treated_as_absent [THEN conjunct2, THEN conjunct2]
  have 1: "fetch plain_env
     (blank_request\<lparr>pathname := ''/authorize'', searchParams := [(''redirect_uri'', [])]\<rparr>)
   = Inr \<lparr>status = 400, headers = [], body = Text ''Missing redirect_uri''\<rparr>"
    by (rule a [rule_format]) (simp add: blank_request_def)
  have 2: "fetch plain_env
     (blank_request\<lparr>pathname := ''/authorize'', searchParams := []\<rparr>)
   = Inr \<lparr>status = 400, headers = [], body = Text ''Missing redirect_uri''\<rparr>"
    by (rule a [rule_format]) (simp add: blank_request_def)
  have 3: "fetch plain_env
     (blank_request\<lparr>req_method := ''POST'', pathname := ''/callback'',
        formData := Some [(''token'', FString []), (''redirect_uri'', FString ''https://chat.example/cb'')]\<rparr>)
   = Inr \<lparr>status = 400, headers = [], body = Text ''Missing token or redirect_uri''\<rparr>"
    by (rule b [rule_format, where fd = "[(''token'', FString []), (''redirect_uri'', FString ''https://chat.example/cb'')]"])
       (simp add: blank_request_def)
  have 4: "fetch plain_env
     (blank_request\<lparr>req_method := ''POST'', pathname := ''/callback'',
        formData := Some [(''token'', FString ''abc''), (''redirect_uri'', FString [])]\<rparr>)
   = Inr \<lparr>status = 400, headers = [], body = Text ''Missing token or redirect_uri''\<rparr>"
    by (rule b [rule_format, where fd = "[(''token'', FString ''abc''), (''redirect_uri'', FString [])]"])
       (simp add: blank_request_def)
  have 5: "fetch plain_env
     (blank_request\<lparr>req_method := ''POST'', pathname := ''/token'',
        req_headers := [''Content-Type'' \<mapsto> ''application/x-www-form-urlencoded''],
        formData := Some [(''code'', FString [])]\<rparr>)
   = Inr \<lparr>status = 400,
           headers = (''Content-Type'', ''application/json'') # corsHeaders,
           body = Json (JObj [(''error'', JStr ''Missing code'')])\<rparr>"
    by (rule c [rule_format, where fd = "[(''code'', FString [])]" and kvs = "[]"])
       (simp add: blank_request_def startsWith_def)
  have 6: "fetch plain_env
     (blank_request\<lparr>req_method := ''POST'', pathname := ''/token'',
        req_headers := [''Content-Type'' \<mapsto> ''application/json''],
        json := Some (JObj [(''code'', JStr [])])\<rparr>)
   = Inr \<lparr>status = 400,
           headers = (''Content-Type'', ''application/json'') # corsHeaders,
           body = Json (JObj [(''error'', JStr ''Missing code'')])\<rparr>"
    by (rule c [rule_format, where fd = "[]" and kvs = "[(''code'', JStr [])]"])
       (simp add: blank_request_def startsWith_def)
  from 1 2 3 4 5 6 show ?thesis by blast
qed

section \<open>Parse failures of \<open>/token\<close>\<close>

text \<open>
  C9: on \<open>POST /token\<close> the answer 400 \<open>{"error":"Invalid request format"}\<close> comes
  from the fallback branch only. When the content type contains
  \<open>application/x-www-form-urlencoded\<close> and the form reader fails, or contains
  \<open>application/json\<close> (and not the former) and the JSON reader fails, the exception
  leaves the handler: there is no response at all, so the handler is not total.
\<close>

theorem token_parse_failures:
  assumes "req_method req = ''POST''" and "pathname req = ''/token''"
    and "ct = or_else (req_headers req ''Content-Type'') []"
  shows "(str_includes ct ''application/x-www-form-urlencoded'' \<and> formData req = None
            \<longrightarrow> fetch e req = Inl FormDataError)
       \<and> (\<not> str_includes ct ''application/x-www-form-urlencoded''
            \<and> str_includes ct ''application/json'' \<and> json req = None
            \<longrightarrow> fetch e req = Inl JsonSyntaxError)
       \<and> (\<not> str_includes ct ''application/x-www-form-urlencoded''
            \<and> \<not> str_includes ct ''application/json'' \<and> formData req = None
            \<longrightarrow> fetch e req
                = Inr \<lparr>status = 400,
                        headers = (''Content-Type'', ''application/json'') # corsHeaders,
                        body = Json (JObj [(''error'', JStr ''Invalid request format'')])\<rparr>)
       \<and> (fetch e req
              = Inr \<lparr>status = 400,
                      headers = (''Content-Type'', ''application/json'') # corsHeaders,
                      body = Json (JObj [(''error'', JStr ''Invalid request format'')])\<rparr>
            \<longrightarrow> \<not> str_includes ct ''application/x-www-form-urlencoded''
                \<and> \<not> str_includes ct ''application/json'' \<and> formData req = None)
       \<and> (str_includes ct ''application/x-www-form-urlencoded'' \<and> formData req = None
            \<or> \<not> str_includes ct ''application/x-www-form-urlencoded''
              \<and> str_includes ct ''application/json'' \<and> json req = None
            \<longrightarrow> (\<forall>resp. fetch e req \<noteq> Inr resp))"
proof -
  have route: "fetch e req = token_route req"
    using assms(1,2) by (simp add: fetch_def)
  have 1: "str_includes ct ''application/x-www-form-urlencoded'' \<and> formData req = None
            \<longrightarrow> fetch e req = Inl FormDataError"
    unfolding route assms(3) by (simp add: token_route_def)
  have 2: "\<not> str_includes ct ''application/x-www-form-urlencoded''
            \<and> str_includes ct ''application/json'' \<and> json req = None
            \<longrightarrow> fetch e req = Inl JsonSyntaxError"
    unfolding route assms(3) by (simp add: token_route_def)
  have 3: "\<not> str_includes ct ''application/x-www-form-urlencoded''
            \<and> \<not> str_includes ct ''application/json'' \<and> formData req = None
            \<longrightarrow> fetch e req
                = Inr \<lparr>status = 400,
                        headers = (''Content-Type'', ''application/json'') # corsHeaders,
                        body = Json (JObj [(''error'', JStr ''Invalid request format'')])\<rparr>"
    unfolding route assms(3) by (simp add: token_route_def new_Response_def)
  have 4: "fetch e req
              = Inr \<lparr>status = 400,
                      headers = (''Content-Type'', ''application/json'') # corsHeaders,
                      body = Json (JObj [(''error'', JStr ''Invalid request format'')])\<rparr>
            \<longrightarrow> \<not> str_includes ct ''application/x-www-form-urlencoded''
                \<and> \<not> str_includes ct ''application/json'' \<and> formData req = None"
    unfolding route assms(3)
    using token_reply_not_invalid
    by (auto simp: token_route_def Let_def split: if_splits option.splits)
  have 5: "str_includes ct ''application/x-www-form-urlencoded'' \<and> formData req = None
            \<or> \<not> str_includes ct ''application/x-www-form-urlencoded''
              \<and> str_includes ct ''application/json'' \<and> json req = None
            \<longrightarrow> (\<forall>resp. fetch e req \<noteq> Inr resp)"
    using 1 2 by auto
  from 1 2 3 4 5 show ?thesis by blast
qed

text \<open>The theorem at an unreadable body under each kind of content type.\<close>

theorem token_parse_failures_witness:
  "fetch plain_env
     (blank_request\<lparr>req_method := ''POST'', pathname := ''/token'',
        req_headers := [''Content-Type'' \<mapsto> ''application/json'']\<rparr>)
   = Inl JsonSyntaxError
   \<and> fetch plain_env
     (blank_request\<lparr>req_method := ''POST'', pathname := ''/token'',
        req_headers := [''Content-Type'' \<mapsto> ''application/x-www-form-urlencoded'']\<rparr>)
   = Inl FormDataError
   \<and> fetch plain_env
     (blank_request\<lparr>req_method := ''POST'', pathname := ''/token'',
        req_headers := [''Content-Type'' \<mapsto> ''text/plain'']\<rparr>)
   = Inr \<lparr>status = 400,
           headers = (''Content-Type'', ''application/json'') # corsHeaders,
           body = Json (JObj [(''error'', JStr ''Invalid request format'')])\<rparr>"
proof -
  have 1: "fetch plain_env
     (blank_request\<lparr>req_method := ''POST'', pathname := ''/token'',
        req_headers := [''Content-Type'' \<mapsto> ''application/json'']\<rparr>)
   = Inl JsonSyntaxError"
    using token_parse_failures
      [of "blank_request\<lparr>req_method := ''POST'', pathname := ''/token'',
             req_headers := [''Content-Type'' \<mapsto> ''application/json'']\<rparr>"
          "''application/json''" plain_env]
    by (simp add: blank_request_def startsWith_def)
  have 2: "fetch plain_env
     (blank_request\<lparr>req_method := ''POST'', pathname := ''/token'',
        req_headers := [''Content-Type'' \<mapsto> ''application/x-www-form-urlencoded'']\<rparr>)
   = Inl FormDataError"
    using token_parse_failures
      [of "blank_request\<lparr>req_method := ''POST'', pathname := ''/token'',
             req_headers := [''Content-Type'' \<mapsto> ''application/x-www-form-urlencoded'']\<rparr>"
          "''application/x-www-form-urlencoded''" plain_env]
    by (simp add: blank_request_def startsWith_def)
  have 3: "fetch plain_env
     (blank_request\<lparr>req_method := ''POST'', pathname := ''/token'',
        req_headers := [''Content-Type'' \<mapsto> ''text/plain'']\<rparr>)
   = Inr \<lparr>status = 400,
           headers = (''Content-Type'', ''application/json'') # corsHeaders,
           body = Json (JObj [(''error'', JStr ''Invalid request format'')])\<rparr>"
    using token_parse_failures
      [of "blank_request\<lparr>req_method := ''POST'', pathname := ''/token'',
             req_headers := [''Content-Type'' \<mapsto> ''text/plain'']\<rparr>"
          "''text/plain''" plain_env]
    by (simp add: blank_request_def startsWith_def)
  from 1 2 3 show ?thesis by blast
qed

section \<open>The two copies of the handler\<close>

text \<open>
  C10, as stated, fails on \<open>/\<close>: the two files hold different home pages, so the two
  handlers answer \<open>GET /\<close> with different bodies.
\<close>

theorem home_pages_differ:
  "fetch plain_env blank_request
   = Inr \<lparr>status = 200,
           headers = (''Content-Type'', ''text/html'') # corsHeaders,
           body = HomePage IndexJs\<rparr>
   \<and> fetch_part_000 plain_env blank_request
   = Inr \<lparr>status = 200,
           headers = (''Content-Type'', ''text/html'') # corsHeaders,
           body = HomePage Part000\<rparr>
   \<and> fetch plain_env blank_request \<noteq> fetch_part_000 plain_env blank_request"
  by (simp add: fetch_def fetch_part_000_def blank_request_def new_Response_def getHomePage_def
      corsHeaders_def)

text \<open>
  C10 (amended): the two handlers are not equal as functions from requests to responses.
  They agree on every \<open>OPTIONS\<close> request, on \<open>POST /callback\<close>, on
  \<open>POST /token\<close>, on \<open>/authorize\<close> without a \<open>redirect_uri\<close> and on every
  request that no route of \<open>src/index.js\<close> matches. On \<open>/\<close> they return the same
  status and headers and different documents. On \<open>/authorize\<close> with a
  \<open>redirect_uri\<close> they return the same status and headers, \<open>src/index.js\<close> with
  the escaped values in the hidden fields (which read back as the inputs) and the second
  copy with the raw values (which do not read back as the input once it holds a double
  quote). On a path under \<open>/api/v1/\<close> the second copy answers 404 and
  \<open>src/index.js\<close> takes its proxy branch, which never gives that answer.
\<close>

theorem variants_compared:
  "(req_method req = ''OPTIONS''
      \<or> pathname req = ''/callback'' \<and> req_method req = ''POST''
      \<or> pathname req = ''/token'' \<and> req_method req = ''POST''
    \<longrightarrow> fetch_part_000 e req = fetch e req)
   \<and> (req_method req \<noteq> ''OPTIONS'' \<and> (pathname req = ''/'' \<or> pathname req = [])
    \<longrightarrow> fetch e req
          = Inr \<lparr>status = 200,
                  headers = (''Content-Type'', ''text/html'') # corsHeaders,
                  body = HomePage IndexJs\<rparr>
      \<and> fetch_part_000 e req
          = Inr \<lparr>status = 200,
                  headers = (''Content-Type'', ''text/html'') # corsHeaders,
                  body = HomePage Part000\<rparr>)
   \<and> (req_method req \<noteq> ''OPTIONS'' \<and> pathname req = ''/authorize''
      \<and> (map_of (searchParams req) ''redirect_uri'' = None
          \<or> map_of (searchParams req) ''redirect_uri'' = Some [])
    \<longrightarrow> fetch_part_000 e req = fetch e req)
   \<and> (req_method req \<noteq> ''OPTIONS'' \<and> pathname req = ''/authorize''
      \<and> map_of (searchParams req) ''redirect_uri'' = Some r \<and> r \<noteq> []
    \<longrightarrow> fetch e req
          = Inr \<lparr>status = 200,
                  headers = (''Content-Type'', ''text/html'') # corsHeaders,
                  body = AuthPage IndexJs (escapeHtml (Some r))
                           (escapeHtml (map_of (searchParams req) ''state''))\<rparr>
      \<and> fetch_part_000 e req
          = Inr \<lparr>status = 200,
                  headers = (''Content-Type'', ''text/html'') # corsHeaders,
                  body = AuthPage Part000 r (or_else (map_of (searchParams req) ''state'') [])\<rparr>
      \<and> html_attr_value (escapeHtml (Some r)) = r
      \<and> (CHR 0x22 \<in> set r \<longrightarrow> html_attr_value r \<noteq> r))
   \<and> (req_method req \<noteq> ''OPTIONS'' \<and> startsWith (pathname req) ''/api/v1/''
    \<longrightarrow> fetch_part_000 e req
          = Inr \<lparr>status = 404, headers = corsHeaders, body = Text ''Not found''\<rparr>
      \<and> fetch e req = proxy_route e req
      \<and> fetch e req \<noteq> fetch_part_000 e req)
   \<and> (req_method req \<noteq> ''OPTIONS'' \<and> pathname req \<noteq> ''/'' \<and> pathname req \<noteq> []
      \<and> pathname req \<noteq> ''/authorize''
      \<and> \<not> (pathname req = ''/callback'' \<and> req_method req = ''POST'')
      \<and> \<not> (pathname req = ''/token'' \<and> req_method req = ''POST'')
      \<and> \<not> startsWith (pathname req) ''/api/v1/''
    \<longrightarrow> fetch_part_000 e req = fetch e req)"
proof -
  have 1: "req_method req = ''OPTIONS''
      \<or> pathname req = ''/callback'' \<and> req_method req = ''POST''
      \<or> pathname req = ''/token'' \<and> req_method req = ''POST''
    \<longrightarrow> fetch_part_000 e req = fetch e req"
    using part_000_options part_000_callback part_000_token by blast
  have 2: "req_method req \<noteq> ''OPTIONS'' \<and> (pathname req = ''/'' \<or> pathname req = [])
    \<longrightarrow> fetch e req
          = Inr \<lparr>status = 200,
                  headers = (''Content-Type'', ''text/html'') # corsHeaders,
                  body = HomePage IndexJs\<rparr>
      \<and> fetch_part_000 e req
          = Inr \<lparr>status = 200,
                  headers = (''Content-Type'', ''text/html'') # corsHeaders,
                  body = HomePage Part000\<rparr>"
    using part_000_home by blast
  have 3: "req_method req \<noteq> ''OPTIONS'' \<and> pathname req = ''/authorize''
      \<and> (map_of (searchParams req) ''redirect_uri'' = None
          \<or> map_of (searchParams req) ''redirect_uri'' = Some [])
    \<longrightarrow> fetch_part_000 e req = fetch e req"
    using part_000_authorize_missing by blast
  have 4: "req_method req \<noteq> ''OPTIONS'' \<and> pathname req = ''/authorize''
      \<and> map_of (searchParams req) ''redirect_uri'' = Some r \<and> r \<noteq> []
    \<longrightarrow> fetch e req
          = Inr \<lparr>status = 200,
                  headers = (''Content-Type'', ''text/html'') # corsHeaders,
                  body = AuthPage IndexJs (escapeHtml (Some r))
                           (escapeHtml (map_of (searchParams req) ''state''))\<rparr>
      \<and> fetch_part_000 e req
          = Inr \<lparr>status = 200,
                  headers = (''Content-Type'', ''text/html'') # corsHeaders,
                  body = AuthPage Part000 r (or_else (map_of (searchParams req) ''state'') [])\<rparr>
      \<and> html_attr_value (escapeHtml (Some r)) = r
      \<and> (CHR 0x22 \<in> set r \<longrightarrow> html_attr_value r \<noteq> r)"
  proof -
    have "html_attr_value (escapeHtml (Some r)) = r"
      by (simp only: escapeHtml_Some attr_roundtrip)
    then show ?thesis
      using part_000_authorize [of req r e] quote_breaks_attribute [of r] by blast
  qed
  have 5: "req_method req \<noteq> ''OPTIONS'' \<and> startsWith (pathname req) ''/api/v1/''
    \<longrightarrow> fetch_part_000 e req
          = Inr \<lparr>status = 404, headers = corsHeaders, body = Text ''Not found''\<rparr>
      \<and> fetch e req = proxy_route e req
      \<and> fetch e req \<noteq> fetch_part_000 e req"
  proof
    assume a: "req_method req \<noteq> ''OPTIONS'' \<and> startsWith (pathname req) ''/api/v1/''"
    then have p: "fetch_part_000 e req
          = Inr \<lparr>status = 404, headers = corsHeaders, body = Text ''Not found''\<rparr>"
      using part_000_api by blast
    from a have f: "fetch e req = proxy_route e req" using fetch_proxy by blast
    from p f proxy_never_fallback [of e req]
    show "fetch_part_000 e req
          = Inr \<lparr>status = 404, headers = corsHeaders, body = Text ''Not found''\<rparr>
      \<and> fetch e req = proxy_route e req
      \<and> fetch e req \<noteq> fetch_part_000 e req" by simp
  qed
  have 6: "req_method req \<noteq> ''OPTIONS'' \<and> pathname req \<noteq> ''/'' \<and> pathname req \<noteq> []
      \<and> pathname req \<noteq> ''/authorize''
      \<and> \<not> (pathname req = ''/callback'' \<and> req_method req = ''POST'')
      \<and> \<not> (pathname req = ''/token'' \<and> req_method req = ''POST'')
      \<and> \<not> startsWith (pathname req) ''/api/v1/''
    \<longrightarrow> fetch_part_000 e req = fetch e req"
    using part_000_fallback [of req e] by blast
  from 1 2 3 4 5 6 show ?thesis by blast
qed

text \<open>
  The theorem at a \<open>redirect_uri\<close> that tries to close the attribute, and at a path
  under \<open>/api/v1/\<close>.
\<close>

theorem variants_compared_witness:
  "fetch plain_env
     (blank_request\<lparr>pathname := ''/authorize'',
        searchParams := [(''redirect_uri'', ''x'' @ [CHR 0x22] @ ''><b>&y'')]\<rparr>)
   = Inr \<lparr>status = 200,
           headers = (''Content-Type'', ''text/html'') # corsHeaders,
           body = AuthPage IndexJs ''x&quot;&gt;&lt;b&gt;&amp;y'' []\<rparr>
   \<and> fetch_part_000 plain_env
     (blank_request\<lparr>pathname := ''/authorize'',
        searchParams := [(''redirect_uri'', ''x'' @ [CHR 0x22] @ ''><b>&y'')]\<rparr>)
   = Inr \<lparr>status = 200,
           headers = (''Content-Type'', ''text/html'') # corsHeaders,
           body = AuthPage Part000 (''x'' @ [CHR 0x22] @ ''><b>&y'') []\<rparr>
   \<and> html_attr_value ''x&quot;&gt;&lt;b&gt;&amp;y'' = ''x'' @ [CHR 0x22] @ ''><b>&y''
   \<and> html_attr_value (''x'' @ [CHR 0x22] @ ''><b>&y'') = ''x''
   \<and> fetch_part_000 plain_env (blank_request\<lparr>pathname := ''/api/v1/courses''\<rparr>)
   = Inr \<lparr>status = 404, headers = corsHeaders, body = Text ''Not found''\<rparr>"
proof -
  let ?r = "''x'' @ [CHR 0x22] @ ''><b>&y''"
  let ?req = "blank_request\<lparr>pathname := ''/authorize'', searchParams := [(''redirect_uri'', ?r)]\<rparr>"
  let ?api = "blank_request\<lparr>pathname := ''/api/v1/courses''\<rparr>"
  have a: "req_method ?req \<noteq> ''OPTIONS'' \<and> pathname ?req = ''/authorize''
      \<and> map_of (searchParams ?req) ''redirect_uri'' = Some ?r \<and> ?r \<noteq> []"
    by (simp add: blank_request_def)
  have b: "req_method ?api \<noteq> ''OPTIONS'' \<and> startsWith (pathname ?api) ''/api/v1/''"
    by (simp add: blank_request_def startsWith_def)
  have v: "html_attr_value ?r = ''x''" by code_simp
  have n: "escapeHtml None = []" by (simp add: escapeHtml_def)
  from variants_compared [of ?req plain_env ?r, THEN conjunct2, THEN conjunct2, THEN conjunct2,
      THEN conjunct1, rule_format, OF a]
    variants_compared [of ?api plain_env "[]", THEN conjunct2, THEN conjunct2, THEN conjunct2,
      THEN conjunct2, THEN conjunct1, rule_format, OF b]
    v
  show ?thesis by (simp add: blank_request_def escape_example [simplified] n)
qed

end
